theory Spec2Isabelle
  imports Main
begin

section \<open>streamparse.cli.common: option parsing and resolution\<close>

text \<open>
  A shallow embedding of \<^verbatim>\<open>streamparse/cli/common.py\<close>: the argparse action
  \<^verbatim>\<open>_StoreDictAction\<close>, the helper \<^verbatim>\<open>option_alias\<close> and the function
  \<^verbatim>\<open>resolve_options\<close>.
\<close>

subsection \<open>Python values\<close>

text \<open>
  The values that occur in option dictionaries and in \<^verbatim>\<open>config.json\<close>: \<^verbatim>\<open>None\<close>,
  booleans, integers, strings and lists. Floats are left out. Strings are lists of
  ASCII characters.
\<close>

datatype pyval =
    PNone
  | PBool bool
  | PInt int
  | PStr string
  | PList "pyval list"

text \<open>
  Dictionary keys: strings, integers and \<^verbatim>\<open>None\<close>. A Python \<^verbatim>\<open>bool\<close> key hashes and
  compares as the integer 0 or 1, so it is a \<open>KInt\<close> here.
\<close>

datatype key = KStr string | KInt int | KNone

type_synonym dict = "key \<rightharpoonup> pyval"

text \<open>
  A value of \<^verbatim>\<open>config.json\<close> where the code expects a dict: a mapping, or one of the
  other values.
\<close>

datatype config_value = Mapping dict | Value pyval

datatype error = KeyError | TypeError | ValueError | OtherError string

text \<open>Truth value testing: \<^verbatim>\<open>bool(v)\<close>.\<close>

fun truthy :: "pyval \<Rightarrow> bool" where
  "truthy PNone = False"
| "truthy (PBool b) = b"
| "truthy (PInt i) = (i \<noteq> 0)"
| "truthy (PStr s) = (s \<noteq> [])"
| "truthy (PList xs) = (xs \<noteq> [])"

text \<open>\<^verbatim>\<open>isinstance(v, int)\<close>: \<^verbatim>\<open>bool\<close> is a subclass of \<^verbatim>\<open>int\<close>.\<close>

fun isinstance_int :: "pyval \<Rightarrow> bool" where
  "isinstance_int (PInt i) = True"
| "isinstance_int (PBool b) = True"
| "isinstance_int v = False"

text \<open>\<^verbatim>\<open>isinstance(v, str)\<close>.\<close>

fun isinstance_str :: "pyval \<Rightarrow> bool" where
  "isinstance_str (PStr s) = True"
| "isinstance_str v = False"

text \<open>\<^verbatim>\<open>len(v)\<close>; a \<^verbatim>\<open>TypeError\<close> for a value without a length.\<close>

fun py_len :: "pyval \<Rightarrow> error + nat" where
  "py_len (PStr s) = Inr (length s)"
| "py_len (PList xs) = Inr (length xs)"
| "py_len v = Inl TypeError"

text \<open>\<^verbatim>\<open>a or b\<close>.\<close>

definition py_or :: "pyval \<Rightarrow> pyval \<Rightarrow> pyval" where
  "py_or a b = (if truthy a then a else b)"

text \<open>\<^verbatim>\<open>d.get(k, default)\<close>.\<close>

definition dict_get :: "('k \<rightharpoonup> pyval) \<Rightarrow> 'k \<Rightarrow> pyval \<Rightarrow> pyval" where
  "dict_get d k dflt = (case d k of None \<Rightarrow> dflt | Some v \<Rightarrow> v)"

text \<open>\<^verbatim>\<open>if c: d[k] = v\<close>.\<close>

definition assign_if :: "bool \<Rightarrow> key \<Rightarrow> pyval \<Rightarrow> dict \<Rightarrow> dict" where
  "assign_if c k v d = (if c then d(k \<mapsto> v) else d)"

text \<open>The key that a hashable value is; lists are unhashable.\<close>

fun hashable :: "pyval \<Rightarrow> key option" where
  "hashable PNone = Some KNone"
| "hashable (PBool b) = Some (KInt (if b then 1 else 0))"
| "hashable (PInt i) = Some (KInt i)"
| "hashable (PStr s) = Some (KStr s)"
| "hashable (PList xs) = None"

text \<open>
  One element of the sequence given to \<^verbatim>\<open>dict.update\<close>, as a key and a value. The
  element must be a sequence, else \<^verbatim>\<open>TypeError\<close>; of length 2, else \<^verbatim>\<open>ValueError\<close>;
  with a hashable first component, else \<^verbatim>\<open>TypeError\<close>. A string of two characters is
  the pair of its characters.
\<close>

fun update_item :: "pyval \<Rightarrow> error + key \<times> pyval" where
  "update_item (PList [a, b]) =
     (case hashable a of None \<Rightarrow> Inl TypeError | Some k \<Rightarrow> Inr (k, b))"
| "update_item (PList xs) = Inl ValueError"
| "update_item (PStr [a, b]) = Inr (KStr [a], PStr [b])"
| "update_item (PStr s) = Inl ValueError"
| "update_item v = Inl TypeError"

text \<open>\<^verbatim>\<open>d.update(xs)\<close> for the elements of a sequence, in order; the first element that
  is no pair raises.\<close>

fun update_items :: "dict \<Rightarrow> pyval list \<Rightarrow> error + dict" where
  "update_items d [] = Inr d"
| "update_items d (x # xs) =
     (case update_item x of
        Inl e \<Rightarrow> Inl e
      | Inr (k, v) \<Rightarrow> update_items (d(k \<mapsto> v)) xs)"

text \<open>
  \<^verbatim>\<open>d.update(other)\<close>. A mapping is merged into \<open>d\<close>. Any other value is iterated as a
  sequence of pairs: \<^verbatim>\<open>None\<close>, a \<^verbatim>\<open>bool\<close> and an \<^verbatim>\<open>int\<close> are not iterable
  (\<^verbatim>\<open>TypeError\<close>), a list gives its elements, and a string its characters, each a string
  of length 1.
\<close>

fun dict_update :: "dict \<Rightarrow> config_value \<Rightarrow> error + dict" where
  "dict_update d (Mapping m) = Inr (d ++ m)"
| "dict_update d (Value (PList xs)) = update_items d xs"
| "dict_update d (Value (PStr s)) = update_items d (map (\<lambda>c. PStr [c]) s)"
| "dict_update d (Value v) = Inl TypeError"

text \<open>\<^verbatim>\<open>v == n\<close> for an integer literal \<^verbatim>\<open>n\<close>; \<^verbatim>\<open>False == 0\<close> and \<^verbatim>\<open>True == 1\<close> hold.\<close>

fun eq_int :: "pyval \<Rightarrow> int \<Rightarrow> bool" where
  "eq_int (PInt i) n = (i = n)"
| "eq_int (PBool b) n = ((if b then 1 else 0) = n)"
| "eq_int v n = False"

text \<open>\<^verbatim>\<open>v == s\<close> for a string literal \<^verbatim>\<open>s\<close>.\<close>

fun eq_str :: "pyval \<Rightarrow> string \<Rightarrow> bool" where
  "eq_str (PStr t) s = (t = s)"
| "eq_str v s = False"

subsection \<open>String operations\<close>

text \<open>\<^verbatim>\<open>s.split(sep)\<close> for a one-character separator: \<open>cur\<close> holds the current
  piece, reversed.\<close>

fun split_acc :: "char \<Rightarrow> string \<Rightarrow> string \<Rightarrow> string list" where
  "split_acc c cur [] = [rev cur]"
| "split_acc c cur (x # xs) =
     (if x = c then rev cur # split_acc c [] xs else split_acc c (x # cur) xs)"

definition split :: "string \<Rightarrow> char \<Rightarrow> string list" where
  "split s c = split_acc c [] s"

text \<open>\<^verbatim>\<open>s.split(sep, 1)\<close>: at most one split, at the first separator.\<close>

fun split_once_acc :: "char \<Rightarrow> string \<Rightarrow> string \<Rightarrow> string list" where
  "split_once_acc c cur [] = [rev cur]"
| "split_once_acc c cur (x # xs) =
     (if x = c then [rev cur, xs] else split_once_acc c (x # cur) xs)"

definition split1 :: "string \<Rightarrow> char \<Rightarrow> string list" where
  "split1 s c = split_once_acc c [] s"

text \<open>\<^verbatim>\<open>sep.join(xs)\<close>.\<close>

fun join :: "string \<Rightarrow> string list \<Rightarrow> string" where
  "join sep [] = []"
| "join sep [x] = x"
| "join sep (x # y # ys) = x @ sep @ join sep (y # ys)"

text \<open>\<^verbatim>\<open>s.lower()\<close> on ASCII.\<close>

definition lower_char :: "char \<Rightarrow> char" where
  "lower_char c =
     (case map_of (zip ''ABCDEFGHIJKLMNOPQRSTUVWXYZ'' ''abcdefghijklmnopqrstuvwxyz'') c of
        None \<Rightarrow> c
      | Some l \<Rightarrow> l)"

definition lower :: "string \<Rightarrow> string" where
  "lower s = map lower_char s"

text \<open>\<^verbatim>\<open>v.lower()\<close> for a value that is a \<^verbatim>\<open>str\<close>; the source calls it under
  \<^verbatim>\<open>isinstance(v, str)\<close> only.\<close>

fun str_lower :: "pyval \<Rightarrow> pyval" where
  "str_lower (PStr s) = PStr (lower s)"
| "str_lower v = v"

subsection \<open>\<^verbatim>\<open>_StoreDictAction\<close>\<close>

text \<open>The attributes \<^verbatim>\<open>argparse.Action.__init__\<close> stores.\<close>

record store_dict_action =
  option_strings :: "string list"
  dest :: string
  nargs :: pyval
  const :: pyval
  default_value :: pyval
  type_func :: "(string \<Rightarrow> string) option"
  choices :: pyval
  required :: bool
  help_text :: pyval
  metavar :: pyval

text \<open>\<^verbatim>\<open>_StoreDictAction.__init__\<close> (lines 16-44).\<close>

definition StoreDictAction_init ::
  "string list \<Rightarrow> string \<Rightarrow> pyval \<Rightarrow> pyval \<Rightarrow> pyval \<Rightarrow> (string \<Rightarrow> string) option \<Rightarrow>
   pyval \<Rightarrow> bool \<Rightarrow> pyval \<Rightarrow> pyval \<Rightarrow> error + store_dict_action" where
  "StoreDictAction_init option_strings' dest' nargs' const' default' type' choices'
       required' help' metavar' =
     (if eq_int nargs' 0 then Inl ValueError
      else if const' \<noteq> PNone \<and> \<not> eq_str nargs' ''?'' then Inl ValueError
      else Inr \<lparr>option_strings = option_strings', dest = dest', nargs = nargs',
                const = const', default_value = default', type_func = type',
                choices = choices', required = required', help_text = help',
                metavar = metavar'\<rparr>)"

text \<open>
  The YAML library is external: its version test and its two loaders are parameters.
\<close>

record yaml =
  version_lt_0_15 :: bool
  safe_load :: "string \<Rightarrow> error + pyval"
  YAML_load :: "string \<Rightarrow> error + pyval"

text \<open>
  An argparse namespace, restricted to attributes that hold \<^verbatim>\<open>None\<close> or a dict:
  \<open>ns a = None\<close> when the attribute is missing, \<open>Some None\<close> when it is \<^verbatim>\<open>None\<close>.
\<close>

type_synonym namespace = "string \<rightharpoonup> dict option"

text \<open>\<^verbatim>\<open>getattr(namespace, name, None)\<close>.\<close>

definition getattr :: "namespace \<Rightarrow> string \<Rightarrow> dict option" where
  "getattr ns name = (case ns name of None \<Rightarrow> None | Some v \<Rightarrow> v)"

text \<open>
  Lines 47-50: the dict under \<^verbatim>\<open>dest\<close>, which is the empty dict stored there first when
  the attribute is missing or \<^verbatim>\<open>None\<close>.
\<close>

definition namespace_items :: "namespace \<Rightarrow> string \<Rightarrow> dict" where
  "namespace_items ns name = (case getattr ns name of None \<Rightarrow> Map.empty | Some d \<Rightarrow> d)"

text \<open>Lines 52-56: the loader that the version of the library selects.\<close>

definition yaml_load :: "yaml \<Rightarrow> string \<Rightarrow> error + pyval" where
  "yaml_load y val = (if version_lt_0_15 y then safe_load y val else YAML_load y val)"

text \<open>
  \<^verbatim>\<open>_StoreDictAction.__call__\<close> (lines 46-57) on a string \<open>values\<close>. The unpacking of
  \<^verbatim>\<open>values.split("=", 1)\<close> into \<^verbatim>\<open>key, val\<close> raises \<^verbatim>\<open>ValueError\<close> without an
  \<^verbatim>\<open>=\<close>.
\<close>

definition StoreDictAction_call ::
  "yaml \<Rightarrow> store_dict_action \<Rightarrow> namespace \<Rightarrow> string \<Rightarrow> error + namespace" where
  "StoreDictAction_call y self ns values =
     (let items = namespace_items ns (dest self)
      in case split1 values CHR ''='' of
           [k, val] \<Rightarrow>
             (case yaml_load y val of
                Inl e \<Rightarrow> Inl e
              | Inr v \<Rightarrow> Inr (ns(dest self \<mapsto> Some (items(KStr k \<mapsto> v)))))
         | _ \<Rightarrow> Inl ValueError)"

text \<open>\<^verbatim>\<open>option_alias(option)\<close> (lines 60-66): the returned function, applied to \<open>val\<close>.\<close>

definition option_alias :: "string \<Rightarrow> string \<Rightarrow> string" where
  "option_alias option val = option @ ''='' @ val"

text \<open>A command line: the action called on each argument string in turn.\<close>

fun parse_args :: "yaml \<Rightarrow> store_dict_action \<Rightarrow> namespace \<Rightarrow> string list \<Rightarrow> error + namespace" where
  "parse_args y self ns [] = Inr ns"
| "parse_args y self ns (a # as) =
     (case StoreDictAction_call y self ns a of
        Inl e \<Rightarrow> Inl e
      | Inr ns' \<Rightarrow> parse_args y self ns' as)"

subsection \<open>\<^verbatim>\<open>resolve_options\<close>\<close>

text \<open>
  The environment configuration is the dict of one environment of \<^verbatim>\<open>config.json\<close>.
  It is a record of the keys \<^verbatim>\<open>resolve_options\<close> reads, each \<open>None\<close> when the key is
  missing: \<^verbatim>\<open>options\<close> holds a mapping or another value, \<^verbatim>\<open>log\<close> a dict,
  \<^verbatim>\<open>virtualenv_root\<close> a string, the others any value.
\<close>

record env_config =
  options :: "config_value option"
  use_virtualenv :: "pyval option"
  virtualenv_root :: "string option"
  log :: "dict option"
  log_path :: "pyval option"
  log_file :: "pyval option"
  install_virtualenv :: "pyval option"
  virtualenv_flags :: "pyval option"
  virtualenv_name :: "pyval option"
  user :: "pyval option"

record topology_class =
  config :: dict

definition VIRTUALENV_OPTIONS :: "string list" where
  "VIRTUALENV_OPTIONS =
     [''install_virtualenv'', ''use_virtualenv'', ''virtualenv_flags'',
      ''virtualenv_root'', ''virtualenv_name'']"

text \<open>\<^verbatim>\<open>env_config[k]\<close> for the keys of \<open>VIRTUALENV_OPTIONS\<close>; \<open>None\<close> when
  \<^verbatim>\<open>k in env_config\<close> is false.\<close>

definition env_item :: "env_config \<Rightarrow> string \<Rightarrow> pyval option" where
  "env_item env k =
     (if k = ''install_virtualenv'' then install_virtualenv env
      else if k = ''use_virtualenv'' then use_virtualenv env
      else if k = ''virtualenv_flags'' then virtualenv_flags env
      else if k = ''virtualenv_root'' then map_option PStr (virtualenv_root env)
      else if k = ''virtualenv_name'' then virtualenv_name env
      else None)"

text \<open>Line 289: \<^verbatim>\<open>storm_options.update(env_config.get("options", {}))\<close> on the empty
  dict; it raises when the value under \<^verbatim>\<open>options\<close> is no mapping and no sequence of
  pairs.\<close>

definition env_options :: "env_config \<Rightarrow> error + dict" where
  "env_options env =
     dict_update Map.empty (case options env of None \<Rightarrow> Mapping Map.empty | Some v \<Rightarrow> v)"

text \<open>Lines 292-298: \<^verbatim>\<open>topology.python.path\<close>; \<^verbatim>\<open>env_config["virtualenv_root"]\<close>
  raises \<^verbatim>\<open>KeyError\<close> when the key is missing.\<close>

definition set_python_path :: "env_config \<Rightarrow> string \<Rightarrow> dict \<Rightarrow> error + dict" where
  "set_python_path env topology_name storm_options =
     (if truthy (case use_virtualenv env of None \<Rightarrow> PBool True | Some v \<Rightarrow> v) then
        (case virtualenv_root env of
           None \<Rightarrow> Inl KeyError
         | Some root \<Rightarrow>
             Inr (storm_options(KStr ''topology.python.path'' \<mapsto>
                    PStr (join ''/'' [root, topology_name, ''bin'', ''python'']))))
      else Inr storm_options)"

text \<open>Line 301: \<^verbatim>\<open>env_config.get("log", {})\<close>.\<close>

definition log_config :: "env_config \<Rightarrow> dict" where
  "log_config env = (case log env of None \<Rightarrow> Map.empty | Some d \<Rightarrow> d)"

text \<open>Lines 302-313: the logging options.\<close>

definition set_log_options :: "env_config \<Rightarrow> dict \<Rightarrow> dict" where
  "set_log_options env storm_options =
     (let log_path' = py_or (dict_get (log_config env) (KStr ''path'') PNone)
                            (case log_path env of None \<Rightarrow> PNone | Some v \<Rightarrow> v);
          log_file' = py_or (dict_get (log_config env) (KStr ''file'') PNone)
                            (case log_file env of None \<Rightarrow> PNone | Some v \<Rightarrow> v);
          s1 = assign_if (truthy log_path') (KStr ''pystorm.log.path'') log_path' storm_options;
          s2 = assign_if (truthy log_file') (KStr ''pystorm.log.file'') log_file' s1;
          s3 = assign_if (isinstance_int (dict_get (log_config env) (KStr ''max_bytes'') PNone))
                 (KStr ''pystorm.log.max_bytes'')
                 (dict_get (log_config env) (KStr ''max_bytes'') PNone) s2;
          s4 = assign_if (isinstance_int (dict_get (log_config env) (KStr ''backup_count'') PNone))
                 (KStr ''pystorm.log.backup_count'')
                 (dict_get (log_config env) (KStr ''backup_count'') PNone) s3
      in assign_if (isinstance_str (dict_get (log_config env) (KStr ''level'') PNone))
           (KStr ''pystorm.log.level'')
           (str_lower (dict_get (log_config env) (KStr ''level'') PNone)) s4)"

text \<open>Lines 316-318: the loop over \<open>VIRTUALENV_OPTIONS\<close>.\<close>

fun set_virtualenv_options :: "env_config \<Rightarrow> string list \<Rightarrow> dict \<Rightarrow> dict" where
  "set_virtualenv_options env [] storm_options = storm_options"
| "set_virtualenv_options env (venv_option # rest) storm_options =
     set_virtualenv_options env rest
       (case env_item env venv_option of
          None \<Rightarrow> storm_options
        | Some v \<Rightarrow> storm_options(KStr venv_option \<mapsto> v))"

text \<open>
  Lines 286-321: the environment tier, that is the environment options overridden by the
  settings derived from the environment configuration.
\<close>

definition env_tier :: "env_config \<Rightarrow> string \<Rightarrow> error + dict" where
  "env_tier env topology_name =
     (case env_options env of
        Inl e \<Rightarrow> Inl e
      | Inr s0 \<Rightarrow>
          (case set_python_path env topology_name s0 of
             Inl e \<Rightarrow> Inl e
           | Inr s1 \<Rightarrow>
               (let s2 = set_log_options env s1;
                    s3 = set_virtualenv_options env VIRTUALENV_OPTIONS s2
                in Inr (s3(KStr ''sudo_user'' \<mapsto>
                             (case user env of None \<Rightarrow> PNone | Some u \<Rightarrow> u))))))"

text \<open>\<^verbatim>\<open>cli_options or {}\<close>: \<^verbatim>\<open>None\<close> and the empty dict are falsy.\<close>

definition cli_or_empty :: "dict option \<Rightarrow> dict" where
  "cli_or_empty cli_options = (case cli_options of None \<Rightarrow> Map.empty | Some c \<Rightarrow> c)"

text \<open>Lines 286-327: the environment tier, updated with the topology options, then with
  the CLI options.\<close>

definition merge_tiers ::
  "dict option \<Rightarrow> env_config \<Rightarrow> topology_class \<Rightarrow> string \<Rightarrow> error + dict" where
  "merge_tiers cli_options env topology topology_name =
     (case env_tier env topology_name of
        Inl e \<Rightarrow> Inl e
      | Inr s \<Rightarrow> Inr (s ++ config topology ++ cli_or_empty cli_options))"

text \<open>Lines 330-331: the log level under \<^verbatim>\<open>topology.debug\<close>.\<close>

definition set_debug_level :: "dict \<Rightarrow> dict" where
  "set_debug_level storm_options =
     (if truthy (dict_get storm_options (KStr ''topology.debug'') (PBool False))
      then storm_options(KStr ''pystorm.log.level'' \<mapsto> PStr ''debug'')
      else storm_options)"

text \<open>
  Lines 334-344: the worker list and \<^verbatim>\<open>num_storm_workers\<close>. The lookup
  \<^verbatim>\<open>get_storm_workers\<close> is external and a parameter; it may raise.
\<close>

definition storm_workers ::
  "(env_config \<Rightarrow> error + pyval) \<Rightarrow> env_config \<Rightarrow> bool \<Rightarrow> dict \<Rightarrow> error + dict \<times> int" where
  "storm_workers get_storm_workers env local_only storm_options =
     (if \<not> local_only then
        (case (if \<not> truthy (dict_get storm_options (KStr ''storm.workers.list'') PNone) then
                 (case get_storm_workers env of
                    Inl e \<Rightarrow> Inl e
                  | Inr w \<Rightarrow> Inr (storm_options(KStr ''storm.workers.list'' \<mapsto> w)))
               else
                 (case storm_options (KStr ''storm.workers.list'') of
                    Some (PStr s) \<Rightarrow>
                      Inr (storm_options(KStr ''storm.workers.list'' \<mapsto>
                             PList (map PStr (split s CHR '',''))))
                  | _ \<Rightarrow> Inr storm_options)) of
           Inl e \<Rightarrow> Inl e
         | Inr s \<Rightarrow>
             (case s (KStr ''storm.workers.list'') of
                None \<Rightarrow> Inl KeyError
              | Some w \<Rightarrow>
                  (case py_len w of Inl e \<Rightarrow> Inl e | Inr n \<Rightarrow> Inr (s, int n))))
      else Inr (storm_options(KStr ''storm.workers.list'' \<mapsto> PList []), 1))"

text \<open>Lines 345-348: \<^verbatim>\<open>if storm_options.get(k) is None: storm_options[k] = n\<close>.\<close>

definition default_count :: "string \<Rightarrow> int \<Rightarrow> dict \<Rightarrow> dict" where
  "default_count k n storm_options =
     (if dict_get storm_options (KStr k) PNone = PNone
      then storm_options(KStr k \<mapsto> PInt n)
      else storm_options)"

text \<open>\<^verbatim>\<open>d.setdefault(k, v)\<close>: stores \<open>v\<close> only when the key is missing.\<close>

definition setdefault :: "dict \<Rightarrow> key \<Rightarrow> pyval \<Rightarrow> dict" where
  "setdefault d k v = (case d k of None \<Rightarrow> d(k \<mapsto> v) | Some _ \<Rightarrow> d)"

text \<open>\<^verbatim>\<open>resolve_options\<close> (lines 276-353).\<close>

definition resolve_options ::
  "(env_config \<Rightarrow> error + pyval) \<Rightarrow> dict option \<Rightarrow> env_config \<Rightarrow> topology_class \<Rightarrow>
   string \<Rightarrow> bool \<Rightarrow> error + dict" where
  "resolve_options get_storm_workers cli_options env topology topology_name local_only =
     (case merge_tiers cli_options env topology topology_name of
        Inl e \<Rightarrow> Inl e
      | Inr merged \<Rightarrow>
          (case storm_workers get_storm_workers env local_only (set_debug_level merged) of
             Inl e \<Rightarrow> Inl e
           | Inr (s, num_storm_workers) \<Rightarrow>
               Inr (setdefault
                      (default_count ''topology.workers'' num_storm_workers
                         (default_count ''topology.acker.executors'' num_storm_workers s))
                      (KStr ''sudo_user'') (PStr ''root''))))"

subsection \<open>The precedence rule, as specified\<close>

text \<open>
  The value of a key under "CLI over topology over \<open>below\<close>": the CLI value when the key is
  in the CLI options, otherwise the topology value when it is in the topology
  configuration, otherwise \<open>below\<close>.
\<close>

definition tiers :: "dict option \<Rightarrow> topology_class \<Rightarrow> key \<Rightarrow> pyval option \<Rightarrow> pyval option" where
  "tiers cli_options topology k below =
     (case cli_or_empty cli_options k of
        Some v \<Rightarrow> Some v
      | None \<Rightarrow> (case config topology k of Some v \<Rightarrow> Some v | None \<Rightarrow> below))"

text \<open>The three-tier precedence CLI > topology > environment options, for the dict
  \<open>env_opts\<close> of the environment options.\<close>

definition precedence :: "dict option \<Rightarrow> topology_class \<Rightarrow> dict \<Rightarrow> key \<Rightarrow> pyval option" where
  "precedence cli_options topology env_opts k = tiers cli_options topology k (env_opts k)"

text \<open>The keys \<^verbatim>\<open>resolve_options\<close> assigns after the three tiers are merged (lines
  329-348).\<close>

definition post_merge_keys :: "key set" where
  "post_merge_keys =
     {KStr ''pystorm.log.level'', KStr ''storm.workers.list'',
      KStr ''topology.acker.executors'', KStr ''topology.workers''}"

text \<open>The keys \<^verbatim>\<open>resolve_options\<close> assigns from the environment configuration on top of
  the environment options (lines 292-321).\<close>

definition env_derived_keys :: "key set" where
  "env_derived_keys =
     {KStr ''topology.python.path'', KStr ''pystorm.log.path'', KStr ''pystorm.log.file'',
      KStr ''pystorm.log.max_bytes'', KStr ''pystorm.log.backup_count'',
      KStr ''pystorm.log.level'', KStr ''install_virtualenv'', KStr ''use_virtualenv'',
      KStr ''virtualenv_flags'', KStr ''virtualenv_root'', KStr ''virtualenv_name'',
      KStr ''sudo_user''}"

fun is_str_key :: "key \<Rightarrow> bool" where
  "is_str_key (KStr s) = True"
| "is_str_key k = False"

text \<open>The entry of a result under a key, or the error.\<close>

definition item :: "error + dict \<Rightarrow> key \<Rightarrow> error + pyval option" where
  "item r k = (case r of Inl e \<Rightarrow> Inl e | Inr d \<Rightarrow> Inr (d k))"

text \<open>
  The logging default for \<open>field\<close>: \<^verbatim>\<open>env_config["log"][field]\<close> when that is truthy,
  otherwise the flat setting \<open>flat\<close> (\<^verbatim>\<open>env_config["log_path"]\<close> or
  \<^verbatim>\<open>env_config["log_file"]\<close>) when that is truthy, otherwise nothing.
\<close>

definition log_setting :: "env_config \<Rightarrow> string \<Rightarrow> pyval option \<Rightarrow> pyval option" where
  "log_setting env field flat =
     (if truthy (dict_get (log_config env) (KStr field) PNone)
      then Some (dict_get (log_config env) (KStr field) PNone)
      else (case flat of None \<Rightarrow> None | Some v \<Rightarrow> (if truthy v then Some v else None)))"

text \<open>
  The number of entries in the resolved \<^verbatim>\<open>storm.workers.list\<close>, which is 1 under
  \<^verbatim>\<open>local_only\<close>; \<open>None\<close> when the list is missing or has no length.
\<close>

definition worker_count :: "bool \<Rightarrow> dict \<Rightarrow> int option" where
  "worker_count local_only d =
     (if local_only then Some 1
      else (case d (KStr ''storm.workers.list'') of
              None \<Rightarrow> None
            | Some w \<Rightarrow> (case py_len w of Inl e \<Rightarrow> None | Inr n \<Rightarrow> Some (int n))))"

text \<open>\<^verbatim>\<open>d.get(k) is None\<close>: the key is absent, or its value is \<^verbatim>\<open>None\<close>.\<close>

definition absent_or_None :: "dict \<Rightarrow> key \<Rightarrow> bool" where
  "absent_or_None d k = (d k = None \<or> d k = Some PNone)"

text \<open>
  Where \<^verbatim>\<open>resolve_options\<close> assigns a key after the merge (lines 329-348), given the
  merged options: the log level under a truthy \<^verbatim>\<open>topology.debug\<close>; the worker list
  under \<^verbatim>\<open>local_only\<close>, or when it is falsy or a string; a worker count that is absent
  or \<^verbatim>\<open>None\<close>.
\<close>

definition derived_after_merge :: "bool \<Rightarrow> dict \<Rightarrow> key \<Rightarrow> bool" where
  "derived_after_merge local_only merged k =
     ((k = KStr ''pystorm.log.level''
         \<and> truthy (dict_get merged (KStr ''topology.debug'') (PBool False)))
      \<or> (k = KStr ''storm.workers.list''
           \<and> (local_only
                \<or> \<not> truthy (dict_get merged (KStr ''storm.workers.list'') PNone)
                \<or> isinstance_str (dict_get merged (KStr ''storm.workers.list'') PNone)))
      \<or> (k = KStr ''topology.acker.executors'' \<and> absent_or_None merged k)
      \<or> (k = KStr ''topology.workers'' \<and> absent_or_None merged k))"

text \<open>
  Where \<^verbatim>\<open>resolve_options\<close> assigns a key from the environment configuration, on top of
  the environment options (lines 292-321): the python path under \<^verbatim>\<open>use_virtualenv\<close>, a
  logging option that the environment sets, a virtualenv option that the environment has,
  and \<^verbatim>\<open>sudo_user\<close> always.
\<close>

definition derived_from_env :: "env_config \<Rightarrow> key \<Rightarrow> bool" where
  "derived_from_env env k =
     ((k = KStr ''topology.python.path''
         \<and> truthy (case use_virtualenv env of None \<Rightarrow> PBool True | Some v \<Rightarrow> v))
      \<or> (k = KStr ''pystorm.log.path'' \<and> log_setting env ''path'' (log_path env) \<noteq> None)
      \<or> (k = KStr ''pystorm.log.file'' \<and> log_setting env ''file'' (log_file env) \<noteq> None)
      \<or> (k = KStr ''pystorm.log.max_bytes''
           \<and> isinstance_int (dict_get (log_config env) (KStr ''max_bytes'') PNone))
      \<or> (k = KStr ''pystorm.log.backup_count''
           \<and> isinstance_int (dict_get (log_config env) (KStr ''backup_count'') PNone))
      \<or> (k = KStr ''pystorm.log.level''
           \<and> isinstance_str (dict_get (log_config env) (KStr ''level'') PNone))
      \<or> (\<exists>n \<in> set VIRTUALENV_OPTIONS. k = KStr n \<and> env_item env n \<noteq> None)
      \<or> k = KStr ''sudo_user'')"

subsection \<open>Example inputs\<close>

text \<open>An environment without a virtualenv and without any other setting.\<close>

definition env_plain :: env_config where
  "env_plain =
     \<lparr>options = None, use_virtualenv = Some (PBool False), virtualenv_root = None,
      log = None, log_path = None, log_file = None, install_virtualenv = None,
      virtualenv_flags = None, virtualenv_name = None, user = None\<rparr>"

definition topology_plain :: topology_class where
  "topology_plain = \<lparr>config = Map.empty\<rparr>"

text \<open>An environment with a log configuration and a flat \<^verbatim>\<open>log_file\<close>.\<close>

definition env_logging :: env_config where
  "env_logging =
     env_plain\<lparr>log := Some [KStr ''path'' \<mapsto> PStr ''/var/log/storm'', KStr ''level'' \<mapsto> PStr ''INFO'',
                            KStr ''max_bytes'' \<mapsto> PInt 1000000, KStr ''backup_count'' \<mapsto> PStr ''3''],
                log_file := Some (PStr ''storm.log'')\<rparr>"

text \<open>A worker lookup that finds two workers, and one that fails.\<close>

definition two_workers :: "env_config \<Rightarrow> error + pyval" where
  "two_workers env = Inr (PList [PStr ''w1'', PStr ''w2''])"

definition no_nimbus :: "env_config \<Rightarrow> error + pyval" where
  "no_nimbus env = Inl (OtherError ''nimbus'')"

text \<open>A loader for the scalars \<^verbatim>\<open>true\<close>, \<^verbatim>\<open>2\<close> and \<^verbatim>\<open>4\<close>; any other text is
  loaded as a string.\<close>

definition scalar_value :: "string \<Rightarrow> pyval" where
  "scalar_value s =
     (if s = ''true'' then PBool True
      else if s = ''2'' then PInt 2
      else if s = ''4'' then PInt 4
      else PStr s)"

definition scalar_load :: "string \<Rightarrow> error + pyval" where
  "scalar_load s = Inr (scalar_value s)"

definition yaml_example :: yaml where
  "yaml_example = \<lparr>version_lt_0_15 = False, safe_load = scalar_load, YAML_load = scalar_load\<rparr>"

text \<open>The action that \<^verbatim>\<open>add_options\<close> registers for \<^verbatim>\<open>--option\<close>.\<close>

definition option_action :: store_dict_action where
  "option_action =
     \<lparr>option_strings = [''-o'', ''--option''], dest = ''options'', nargs = PNone,
      const = PNone, default_value = PNone, type_func = None, choices = PNone,
      required = False, help_text = PNone, metavar = PNone\<rparr>"

section \<open>Properties\<close>

subsection \<open>The stages of \<^verbatim>\<open>resolve_options\<close>\<close>

lemma assign_if_lookup: "assign_if c k v d k' = (if c \<and> k' = k then Some v else d k')"
  by (simp add: assign_if_def)

lemma set_python_path_other:
  "set_python_path env name s = Inr s' \<Longrightarrow> k \<noteq> KStr ''topology.python.path'' \<Longrightarrow> s' k = s k"
  by (auto simp: set_python_path_def split: if_splits option.splits)

lemma set_virtualenv_options_other:
  "\<forall>n \<in> set ks. k \<noteq> KStr n \<Longrightarrow> set_virtualenv_options env ks s k = s k"
  by (induction ks arbitrary: s) (auto split: option.splits)

lemma set_debug_level_other:
  "k \<noteq> KStr ''pystorm.log.level'' \<Longrightarrow> set_debug_level s k = s k"
  by (simp add: set_debug_level_def)

lemma storm_workers_other:
  "storm_workers g env local s = Inr (s', n) \<Longrightarrow> k \<noteq> KStr ''storm.workers.list'' \<Longrightarrow> s' k = s k"
  by (auto simp: storm_workers_def split: if_splits sum.splits option.splits pyval.splits)

lemma default_count_other: "k \<noteq> KStr c \<Longrightarrow> default_count c n s k = s k"
  by (simp add: default_count_def)

lemma setdefault_lookup:
  "setdefault d k v k' = (if k' = k \<and> d k = None then Some v else d k')"
  by (simp add: setdefault_def split: option.splits)
lemma set_log_options_other:
  "k \<notin> env_derived_keys \<Longrightarrow> set_log_options env s k = s k"
  by (simp add: set_log_options_def env_derived_keys_def Let_def assign_if_lookup)

lemma env_tier_stages:
  assumes "env_tier env name = Inr e"
  shows "\<exists>eo s1. env_options env = Inr eo \<and> set_python_path env name eo = Inr s1
     \<and> e = (set_virtualenv_options env VIRTUALENV_OPTIONS (set_log_options env s1))
             (KStr ''sudo_user'' \<mapsto> (case user env of None \<Rightarrow> PNone | Some u \<Rightarrow> u))"
  using assms by (auto simp: env_tier_def Let_def split: sum.splits)

lemma env_tier_other:
  assumes "env_tier env name = Inr e" and "env_options env = Inr eo"
    and "k \<notin> env_derived_keys"
  shows "e k = eo k"
proof -
  from env_tier_stages[OF assms(1)] assms(2) obtain s1 where
        s1: "set_python_path env name eo = Inr s1"
    and e: "e = (set_virtualenv_options env VIRTUALENV_OPTIONS (set_log_options env s1))
                  (KStr ''sudo_user'' \<mapsto> (case user env of None \<Rightarrow> PNone | Some u \<Rightarrow> u))"
    by auto
  have k1: "k \<noteq> KStr ''sudo_user''" and k2: "\<forall>n \<in> set VIRTUALENV_OPTIONS. k \<noteq> KStr n"
    and k3: "k \<noteq> KStr ''topology.python.path''"
    using assms(3) by (auto simp: env_derived_keys_def VIRTUALENV_OPTIONS_def)
  have "e k = set_log_options env s1 k"
    using e k1 set_virtualenv_options_other[OF k2] by simp
  also have "\<dots> = s1 k" by (rule set_log_options_other[OF assms(3)])
  also have "\<dots> = eo k" by (rule set_python_path_other[OF s1 k3])
  finally show ?thesis .
qed

lemma env_tier_sudo_user:
  "env_tier env name = Inr e \<Longrightarrow>
   e (KStr ''sudo_user'') = Some (case user env of None \<Rightarrow> PNone | Some u \<Rightarrow> u)"
  by (auto simp: env_tier_def Let_def split: sum.splits)

lemma merge_tiers_lookup:
  assumes "merge_tiers cli env topo name = Inr m"
  shows "\<exists>e. env_tier env name = Inr e \<and> (\<forall>k. m k = tiers cli topo k (e k))"
proof -
  from assms obtain e where e: "env_tier env name = Inr e"
    and m: "m = e ++ config topo ++ cli_or_empty cli"
    by (auto simp: merge_tiers_def split: sum.splits)
  have "m k = tiers cli topo k (e k)" for k
    by (simp add: m tiers_def map_add_def split: option.splits)
  with e show ?thesis by simp
qed

lemma resolve_options_stages:
  assumes "resolve_options g cli env topo name local = Inr d"
  shows "\<exists>m s n. merge_tiers cli env topo name = Inr m
    \<and> storm_workers g env local (set_debug_level m) = Inr (s, n)
    \<and> d = setdefault (default_count ''topology.workers'' n
                (default_count ''topology.acker.executors'' n s))
              (KStr ''sudo_user'') (PStr ''root'')"
  using assms by (auto simp: resolve_options_def split: sum.splits prod.splits)

lemma merge_tiers_sudo_user:
  assumes "merge_tiers cli env topo name = Inr m"
  shows "m (KStr ''sudo_user'') \<noteq> None"
proof -
  from merge_tiers_lookup[OF assms] obtain e where e: "env_tier env name = Inr e"
    and m: "\<And>k. m k = tiers cli topo k (e k)" by auto
  show ?thesis using env_tier_sudo_user[OF e]
    by (simp add: m tiers_def split: option.splits)
qed

lemma resolve_options_frame:
  assumes "resolve_options g cli env topo name local = Inr d"
    and "merge_tiers cli env topo name = Inr m"
    and "k \<notin> post_merge_keys"
  shows "d k = m k"
proof -
  from resolve_options_stages[OF assms(1)] assms(2) obtain s n where
        s: "storm_workers g env local (set_debug_level m) = Inr (s, n)"
    and d: "d = setdefault (default_count ''topology.workers'' n
                (default_count ''topology.acker.executors'' n s))
              (KStr ''sudo_user'') (PStr ''root'')"
    by auto
  have k: "k \<noteq> KStr ''pystorm.log.level''" "k \<noteq> KStr ''storm.workers.list''"
    "k \<noteq> KStr ''topology.acker.executors''" "k \<noteq> KStr ''topology.workers''"
    using assms(3) by (auto simp: post_merge_keys_def)
  have sk: "s k' = m k'" if "k' \<noteq> KStr ''pystorm.log.level''" "k' \<noteq> KStr ''storm.workers.list''" for k'
    using storm_workers_other[OF s that(2)] set_debug_level_other[OF that(1)] by simp
  have "s (KStr ''sudo_user'') \<noteq> None"
    using merge_tiers_sudo_user[OF assms(2)] sk[of "KStr ''sudo_user''"] by simp
  then have su: "default_count ''topology.workers'' n
                (default_count ''topology.acker.executors'' n s) (KStr ''sudo_user'') \<noteq> None"
    by (simp add: default_count_other)
  have "d k = default_count ''topology.workers'' n
                (default_count ''topology.acker.executors'' n s) k"
    unfolding d setdefault_lookup using su by simp
  also have "\<dots> = s k" using k by (simp add: default_count_other)
  also have "\<dots> = m k" using k sk by simp
  finally show ?thesis .
qed

text \<open>The definitions to unfold when evaluating \<^verbatim>\<open>resolve_options\<close> on a concrete
  input.\<close>

lemmas eval_defs = resolve_options_def merge_tiers_def env_tier_def set_python_path_def
  env_options_def set_log_options_def log_config_def assign_if_def VIRTUALENV_OPTIONS_def env_item_def cli_or_empty_def
  set_debug_level_def storm_workers_def default_count_def setdefault_def dict_get_def py_or_def
  item_def env_plain_def topology_plain_def two_workers_def no_nimbus_def

lemma set_log_options_frame:
  "k \<noteq> KStr ''pystorm.log.path'' \<Longrightarrow> k \<noteq> KStr ''pystorm.log.file'' \<Longrightarrow>
   k \<noteq> KStr ''pystorm.log.max_bytes'' \<Longrightarrow> k \<noteq> KStr ''pystorm.log.backup_count'' \<Longrightarrow>
   k \<noteq> KStr ''pystorm.log.level'' \<Longrightarrow> set_log_options env s k = s k"
  by (simp add: set_log_options_def Let_def assign_if_lookup)

lemma set_log_options_cong:
  "s k = s' k \<Longrightarrow> set_log_options env s k = set_log_options env s' k"
  by (simp add: set_log_options_def Let_def assign_if_lookup)

lemma set_log_options_path:
  "set_log_options env s (KStr ''pystorm.log.path'') =
     (case log_setting env ''path'' (log_path env) of
        None \<Rightarrow> s (KStr ''pystorm.log.path'')
      | Some v \<Rightarrow> Some v)"
  by (simp add: set_log_options_def Let_def assign_if_lookup log_setting_def py_or_def
      split: option.splits)

lemma set_log_options_file:
  "set_log_options env s (KStr ''pystorm.log.file'') =
     (case log_setting env ''file'' (log_file env) of
        None \<Rightarrow> s (KStr ''pystorm.log.file'')
      | Some v \<Rightarrow> Some v)"
  by (simp add: set_log_options_def Let_def assign_if_lookup log_setting_def py_or_def
      split: option.splits)

lemma set_log_options_max_bytes:
  "set_log_options env s (KStr ''pystorm.log.max_bytes'') =
     (if isinstance_int (dict_get (log_config env) (KStr ''max_bytes'') PNone)
      then Some (dict_get (log_config env) (KStr ''max_bytes'') PNone)
      else s (KStr ''pystorm.log.max_bytes''))"
  by (simp add: set_log_options_def Let_def assign_if_lookup)

lemma set_log_options_backup_count:
  "set_log_options env s (KStr ''pystorm.log.backup_count'') =
     (if isinstance_int (dict_get (log_config env) (KStr ''backup_count'') PNone)
      then Some (dict_get (log_config env) (KStr ''backup_count'') PNone)
      else s (KStr ''pystorm.log.backup_count''))"
  by (simp add: set_log_options_def Let_def assign_if_lookup)

lemma set_log_options_level:
  "set_log_options env s (KStr ''pystorm.log.level'') =
     (if isinstance_str (dict_get (log_config env) (KStr ''level'') PNone)
      then Some (str_lower (dict_get (log_config env) (KStr ''level'') PNone))
      else s (KStr ''pystorm.log.level''))"
  by (simp add: set_log_options_def Let_def assign_if_lookup)

lemma resolve_options_env_options:
  assumes "resolve_options g cli env topo name local = Inr d"
  shows "\<exists>eo. env_options env = Inr eo"
proof -
  from resolve_options_stages[OF assms] obtain m where "merge_tiers cli env topo name = Inr m"
    by auto
  from merge_tiers_lookup[OF this] obtain e where "env_tier env name = Inr e" by auto
  from env_tier_stages[OF this] show ?thesis by auto
qed

lemma env_tier_python_path:
  assumes "env_tier env name = Inr e" and "env_options env = Inr eo"
  shows "e (KStr ''topology.python.path'') =
     (if truthy (case use_virtualenv env of None \<Rightarrow> PBool True | Some v \<Rightarrow> v)
      then map_option (\<lambda>root. PStr (join ''/'' [root, name, ''bin'', ''python''])) (virtualenv_root env)
      else eo (KStr ''topology.python.path''))"
proof -
  from env_tier_stages[OF assms(1)] assms(2) obtain s1 where
        s1: "set_python_path env name eo = Inr s1"
    and e: "e = (set_virtualenv_options env VIRTUALENV_OPTIONS (set_log_options env s1))
                  (KStr ''sudo_user'' \<mapsto> (case user env of None \<Rightarrow> PNone | Some u \<Rightarrow> u))"
    by auto
  have k2: "\<forall>n \<in> set VIRTUALENV_OPTIONS. KStr ''topology.python.path'' \<noteq> KStr n"
    by (simp add: VIRTUALENV_OPTIONS_def)
  have "e (KStr ''topology.python.path'') = s1 (KStr ''topology.python.path'')"
    using set_virtualenv_options_other[OF k2] by (simp add: e set_log_options_frame)
  then show ?thesis using s1
    by (auto simp: set_python_path_def split: if_splits option.splits)
qed

lemma env_tier_log_key:
  assumes "env_tier env name = Inr e" and "env_options env = Inr eo"
    and "k \<in> {KStr ''pystorm.log.path'', KStr ''pystorm.log.file'', KStr ''pystorm.log.max_bytes'',
               KStr ''pystorm.log.backup_count'', KStr ''pystorm.log.level''}"
  shows "e k = set_log_options env eo k"
proof -
  from env_tier_stages[OF assms(1)] assms(2) obtain s1 where
        s1: "set_python_path env name eo = Inr s1"
    and e: "e = (set_virtualenv_options env VIRTUALENV_OPTIONS (set_log_options env s1))
                  (KStr ''sudo_user'' \<mapsto> (case user env of None \<Rightarrow> PNone | Some u \<Rightarrow> u))"
    by auto
  have k1: "k \<noteq> KStr ''sudo_user''" and k2: "\<forall>n \<in> set VIRTUALENV_OPTIONS. k \<noteq> KStr n"
    and k3: "k \<noteq> KStr ''topology.python.path''"
    using assms(3) by (auto simp: VIRTUALENV_OPTIONS_def)
  have "e k = set_log_options env s1 k"
    using e k1 set_virtualenv_options_other[OF k2] by simp
  also have "\<dots> = set_log_options env eo k"
    using set_python_path_other[OF s1 k3] by (rule set_log_options_cong)
  finally show ?thesis .
qed

subsection \<open>Constructing a \<^verbatim>\<open>_StoreDictAction\<close>\<close>

text \<open>
  Claim C10. Constructing a \<^verbatim>\<open>_StoreDictAction\<close> raises \<^verbatim>\<open>ValueError\<close> if and only if
  \<^verbatim>\<open>nargs == 0\<close>, or \<^verbatim>\<open>const\<close> is not \<^verbatim>\<open>None\<close> while \<^verbatim>\<open>nargs\<close> is not \<^verbatim>\<open>"?"\<close>; for
  every other combination of arguments the construction succeeds, with the arguments
  stored as they were given.
\<close>

theorem StoreDictAction_init_raises:
  "(StoreDictAction_init os d n c df ty ch rq h mv = Inl ValueError) =
     (eq_int n 0 \<or> (c \<noteq> PNone \<and> \<not> eq_str n ''?''))
   \<and> (\<not> (eq_int n 0 \<or> (c \<noteq> PNone \<and> \<not> eq_str n ''?'')) \<longrightarrow>
        StoreDictAction_init os d n c df ty ch rq h mv =
          Inr \<lparr>option_strings = os, dest = d, nargs = n, const = c, default_value = df,
               type_func = ty, choices = ch, required = rq, help_text = h, metavar = mv\<rparr>)"
  by (simp add: StoreDictAction_init_def)

text \<open>The \<^verbatim>\<open>--debug\<close> flag: \<^verbatim>\<open>const="true"\<close> with \<^verbatim>\<open>nargs="?"\<close> is accepted.\<close>

theorem StoreDictAction_init_raises_witness:
  "\<not> (eq_int (PStr ''?'') 0 \<or> (PStr ''true'' \<noteq> PNone \<and> \<not> eq_str (PStr ''?'') ''?''))
   \<and> StoreDictAction_init [''-d'', ''--debug''] ''options'' (PStr ''?'') (PStr ''true'') PNone
        (Some (option_alias ''topology.debug'')) PNone False PNone PNone =
       Inr \<lparr>option_strings = [''-d'', ''--debug''], dest = ''options'', nargs = PStr ''?'',
            const = PStr ''true'', default_value = PNone,
            type_func = Some (option_alias ''topology.debug''), choices = PNone,
            required = False, help_text = PNone, metavar = PNone\<rparr>
   \<and> StoreDictAction_init [''-a''] ''options'' (PInt 0) PNone PNone None PNone False PNone PNone
       = Inl ValueError"
  using StoreDictAction_init_raises
          [of "[''-d'', ''--debug'']" "''options''" "PStr ''?''" "PStr ''true''" PNone
              "Some (option_alias ''topology.debug'')" PNone False PNone PNone]
        StoreDictAction_init_raises
          [of "[''-a'']" "''options''" "PInt 0" PNone PNone None PNone False PNone PNone]
  by simp

subsection \<open>The log level under \<^verbatim>\<open>topology.debug\<close>\<close>

text \<open>
  Claim C4. In every dictionary returned by \<^verbatim>\<open>resolve_options\<close>, if the resolved value of
  \<^verbatim>\<open>topology.debug\<close> is truthy, then the resolved value of \<^verbatim>\<open>pystorm.log.level\<close> is
  exactly \<^verbatim>\<open>"debug"\<close>, whatever level the CLI options, the topology configuration or the
  environment configuration supplied.
\<close>

theorem debug_forces_log_level:
  assumes "resolve_options g cli env topo name local = Inr d"
    and "truthy (dict_get d (KStr ''topology.debug'') (PBool False))"
  shows "d (KStr ''pystorm.log.level'') = Some (PStr ''debug'')"
proof -
  from resolve_options_stages[OF assms(1)] obtain m s n where
        m: "merge_tiers cli env topo name = Inr m"
    and s: "storm_workers g env local (set_debug_level m) = Inr (s, n)"
    and d: "d = setdefault (default_count ''topology.workers'' n
                (default_count ''topology.acker.executors'' n s))
              (KStr ''sudo_user'') (PStr ''root'')"
    by auto
  have after: "d k = s k" if "k \<noteq> KStr ''topology.acker.executors''" "k \<noteq> KStr ''topology.workers''"
     "k \<noteq> KStr ''sudo_user''" for k
    using that by (simp add: d setdefault_lookup default_count_other)
  have dbg: "d (KStr ''topology.debug'') = m (KStr ''topology.debug'')"
    using resolve_options_frame[OF assms(1) m] by (simp add: post_merge_keys_def)
  have "truthy (dict_get m (KStr ''topology.debug'') (PBool False))"
    using assms(2) dbg by (simp add: dict_get_def)
  then have "set_debug_level m (KStr ''pystorm.log.level'') = Some (PStr ''debug'')"
    by (simp add: set_debug_level_def)
  moreover have "s (KStr ''pystorm.log.level'') = set_debug_level m (KStr ''pystorm.log.level'')"
    using storm_workers_other[OF s] by simp
  ultimately show ?thesis using after[of "KStr ''pystorm.log.level''"] by simp
qed

text \<open>A CLI-supplied level \<^verbatim>\<open>"info"\<close> is overwritten.\<close>

theorem debug_forces_log_level_witness:
  "\<exists>d. resolve_options no_nimbus
          (Some [KStr ''topology.debug'' \<mapsto> PBool True, KStr ''pystorm.log.level'' \<mapsto> PStr ''info''])
          env_plain topology_plain ''wordcount'' True = Inr d
     \<and> truthy (dict_get d (KStr ''topology.debug'') (PBool False))
     \<and> d (KStr ''pystorm.log.level'') = Some (PStr ''debug'')"
proof -
  let ?cli = "Some [KStr ''topology.debug'' \<mapsto> PBool True, KStr ''pystorm.log.level'' \<mapsto> PStr ''info'']"
  obtain d where d: "resolve_options no_nimbus ?cli env_plain topology_plain ''wordcount'' True = Inr d"
    by (simp add: eval_defs)
  have t: "truthy (dict_get d (KStr ''topology.debug'') (PBool False))"
    using resolve_options_frame[OF d, of _ "KStr ''topology.debug''"]
    by (simp add: merge_tiers_def env_tier_def env_options_def set_python_path_def env_plain_def
        post_merge_keys_def dict_get_def cli_or_empty_def)
  from debug_forces_log_level[OF d t] d t show ?thesis by blast
qed

subsection \<open>The sudo user\<close>

text \<open>
  Claim C2, evaluated where it fails. With no \<^verbatim>\<open>sudo_user\<close> in the CLI options or in the
  topology configuration and no \<^verbatim>\<open>user\<close> in the environment configuration, the resolved
  \<^verbatim>\<open>sudo_user\<close> is \<^verbatim>\<open>None\<close>: line 321 always stores the key, so the \<^verbatim>\<open>setdefault\<close>
  of line 351 never stores \<^verbatim>\<open>"root"\<close>.
\<close>

theorem sudo_user_default_is_None:
  "item (resolve_options no_nimbus None env_plain topology_plain ''wordcount'' True)
     (KStr ''sudo_user'') = Inr (Some PNone)"
  by (simp add: eval_defs)

text \<open>
  In general: without a \<^verbatim>\<open>sudo_user\<close> in the CLI options and in the topology
  configuration, the resolved \<^verbatim>\<open>sudo_user\<close> is \<^verbatim>\<open>env_config.get("user", None)\<close>, never
  \<^verbatim>\<open>"root"\<close> by default.
\<close>

lemma resolve_options_sudo_user:
  assumes "resolve_options g cli env topo name local = Inr d"
    and "cli_or_empty cli (KStr ''sudo_user'') = None"
    and "config topo (KStr ''sudo_user'') = None"
  shows "d (KStr ''sudo_user'') = Some (case user env of None \<Rightarrow> PNone | Some u \<Rightarrow> u)"
proof -
  from resolve_options_stages[OF assms(1)] obtain m where m: "merge_tiers cli env topo name = Inr m"
    by auto
  from merge_tiers_lookup[OF m] obtain e where e: "env_tier env name = Inr e"
    and mk: "\<And>k. m k = tiers cli topo k (e k)" by auto
  have "d (KStr ''sudo_user'') = m (KStr ''sudo_user'')"
    using resolve_options_frame[OF assms(1) m] by (simp add: post_merge_keys_def)
  also have "\<dots> = e (KStr ''sudo_user'')"
    using assms(2,3) by (simp add: mk tiers_def)
  finally show ?thesis by (simp add: env_tier_sudo_user[OF e])
qed

subsection \<open>The virtualenv root\<close>

text \<open>
  Claim C9 as it is stated, refuted: \<^verbatim>\<open>resolve_options\<close> raises \<^verbatim>\<open>KeyError\<close> when
  \<^verbatim>\<open>use_virtualenv\<close> is truthy or absent and the environment configuration has no
  \<^verbatim>\<open>virtualenv_root\<close>. The update with \<^verbatim>\<open>env_config["options"]\<close> on line 289 comes first,
  and with \<^verbatim>\<open>"options": None\<close> it raises \<^verbatim>\<open>TypeError\<close>.
\<close>

theorem virtualenv_root_counterexample:
  "use_virtualenv (env_plain\<lparr>use_virtualenv := None, options := Some (Value PNone)\<rparr>) = None
   \<and> virtualenv_root (env_plain\<lparr>use_virtualenv := None, options := Some (Value PNone)\<rparr>) = None
   \<and> resolve_options two_workers None
         (env_plain\<lparr>use_virtualenv := None, options := Some (Value PNone)\<rparr>)
         topology_plain ''wordcount'' False = Inl TypeError"
  by (simp add: eval_defs)

text \<open>
  Claim C9, amended. When \<^verbatim>\<open>use_virtualenv\<close> is truthy or absent and the environment
  configuration has no \<^verbatim>\<open>virtualenv_root\<close>, \<^verbatim>\<open>resolve_options\<close> raises: the error of the
  update with \<^verbatim>\<open>env_config["options"]\<close> when that update fails, and \<^verbatim>\<open>KeyError\<close>
  otherwise, as it does whenever the options are absent or a mapping. When
  \<^verbatim>\<open>use_virtualenv\<close> is present and falsy, the branch is skipped: it leaves the options
  as they are, and the resolved \<^verbatim>\<open>topology.python.path\<close> is what the three tiers give,
  with nothing derived.
\<close>

theorem resolve_options_virtualenv_root:
  "(truthy (case use_virtualenv env of None \<Rightarrow> PBool True | Some v \<Rightarrow> v) \<and> virtualenv_root env = None
      \<longrightarrow> resolve_options g cli env topo name local =
            (case env_options env of Inl e \<Rightarrow> Inl e | Inr eo \<Rightarrow> Inl KeyError)
          \<and> ((options env = None \<or> (\<exists>m. options env = Some (Mapping m)))
                \<longrightarrow> resolve_options g cli env topo name local = Inl KeyError))
   \<and> ((\<exists>v. use_virtualenv env = Some v \<and> \<not> truthy v)
      \<longrightarrow> set_python_path env name s = Inr s
        \<and> (\<forall>d eo. resolve_options g cli env topo name local = Inr d \<and> env_options env = Inr eo \<longrightarrow>
              d (KStr ''topology.python.path'') = precedence cli topo eo (KStr ''topology.python.path'')))"
proof (intro conjI impI allI)
  assume a: "truthy (case use_virtualenv env of None \<Rightarrow> PBool True | Some v \<Rightarrow> v) \<and> virtualenv_root env = None"
  then show r: "resolve_options g cli env topo name local =
            (case env_options env of Inl e \<Rightarrow> Inl e | Inr eo \<Rightarrow> Inl KeyError)"
    by (simp add: resolve_options_def merge_tiers_def env_tier_def set_python_path_def
        split: sum.splits)
  assume "options env = None \<or> (\<exists>m. options env = Some (Mapping m))"
  then have "\<exists>eo. env_options env = Inr eo"
    by (auto simp: env_options_def)
  with r show "resolve_options g cli env topo name local = Inl KeyError"
    by auto
next
  assume "\<exists>v. use_virtualenv env = Some v \<and> \<not> truthy v"
  then show "set_python_path env name s = Inr s"
    by (auto simp: set_python_path_def)
next
  fix d eo
  assume u: "\<exists>v. use_virtualenv env = Some v \<and> \<not> truthy v"
    and d: "resolve_options g cli env topo name local = Inr d \<and> env_options env = Inr eo"
  from resolve_options_stages[of g cli env topo name local d] d
  obtain m where m: "merge_tiers cli env topo name = Inr m"
    by auto
  from merge_tiers_lookup[OF m] obtain e where e: "env_tier env name = Inr e"
    and mk: "\<And>k. m k = tiers cli topo k (e k)" by auto
  have "d (KStr ''topology.python.path'') = m (KStr ''topology.python.path'')"
    using resolve_options_frame[of g cli env topo name local d m] d m
    by (simp add: post_merge_keys_def)
  also have "\<dots> = tiers cli topo (KStr ''topology.python.path'') (eo (KStr ''topology.python.path''))"
    using env_tier_python_path[OF e, of eo] d u by (auto simp: mk)
  finally show "d (KStr ''topology.python.path'') = precedence cli topo eo (KStr ''topology.python.path'')"
    by (simp add: precedence_def)
qed

text \<open>Without \<^verbatim>\<open>use_virtualenv\<close> and \<^verbatim>\<open>virtualenv_root\<close>: \<^verbatim>\<open>KeyError\<close>. With
  \<^verbatim>\<open>use_virtualenv\<close> false: no python path.\<close>

theorem resolve_options_virtualenv_root_witness:
  "truthy (case use_virtualenv (env_plain\<lparr>use_virtualenv := None\<rparr>) of None \<Rightarrow> PBool True | Some v \<Rightarrow> v)
   \<and> virtualenv_root (env_plain\<lparr>use_virtualenv := None\<rparr>) = None
   \<and> options (env_plain\<lparr>use_virtualenv := None\<rparr>) = None
   \<and> resolve_options two_workers None (env_plain\<lparr>use_virtualenv := None\<rparr>) topology_plain
        ''wordcount'' False = Inl KeyError
   \<and> (\<exists>v. use_virtualenv env_plain = Some v \<and> \<not> truthy v)
   \<and> set_python_path env_plain ''wordcount'' Map.empty = Inr Map.empty
   \<and> item (resolve_options two_workers None env_plain topology_plain ''wordcount'' False)
        (KStr ''topology.python.path'') = Inr None"
proof -
  have a: "truthy (case use_virtualenv (env_plain\<lparr>use_virtualenv := None\<rparr>) of None \<Rightarrow> PBool True | Some v \<Rightarrow> v)
   \<and> virtualenv_root (env_plain\<lparr>use_virtualenv := None\<rparr>) = None"
    and o: "options (env_plain\<lparr>use_virtualenv := None\<rparr>) = None"
    by (simp_all add: env_plain_def)
  have b: "\<exists>v. use_virtualenv env_plain = Some v \<and> \<not> truthy v"
    by (simp add: env_plain_def)
  have c: "item (resolve_options two_workers None env_plain topology_plain ''wordcount'' False)
        (KStr ''topology.python.path'') = Inr None"
    by (simp add: eval_defs)
  from a o b c
    resolve_options_virtualenv_root[of "env_plain\<lparr>use_virtualenv := None\<rparr>" two_workers None
      topology_plain "''wordcount''" False Map.empty]
    resolve_options_virtualenv_root[of env_plain two_workers None
      topology_plain "''wordcount''" False Map.empty]
  show ?thesis by blast
qed

subsection \<open>String keys\<close>

text \<open>
  Claim C8. When the environment options, the topology configuration and the CLI options
  have only string keys, every key of the dictionary returned by \<^verbatim>\<open>resolve_options\<close> is
  a string.
\<close>

theorem resolve_options_string_keys:
  assumes "resolve_options g cli env topo name local = Inr d"
    and "env_options env = Inr eo"
    and "\<forall>k \<in> dom eo. is_str_key k"
    and "\<forall>k \<in> dom (config topo). is_str_key k"
    and "\<forall>k \<in> dom (cli_or_empty cli). is_str_key k"
  shows "\<forall>k \<in> dom d. is_str_key k"
proof
  fix k assume k: "k \<in> dom d"
  show "is_str_key k"
  proof (rule ccontr)
    assume n: "\<not> is_str_key k"
    then have ns: "\<And>s. k \<noteq> KStr s" by auto
    from resolve_options_stages[OF assms(1)] obtain m where m: "merge_tiers cli env topo name = Inr m"
      by auto
    from merge_tiers_lookup[OF m] obtain e where e: "env_tier env name = Inr e"
      and mk: "\<And>k. m k = tiers cli topo k (e k)" by auto
    have "d k = m k" using resolve_options_frame[OF assms(1) m] ns
      by (simp add: post_merge_keys_def)
    moreover have "e k = eo k" using env_tier_other[OF e assms(2)] ns
      by (simp add: env_derived_keys_def)
    moreover have "eo k = None" "config topo k = None" "cli_or_empty cli k = None"
      using assms(3-5) n by (auto simp: dom_def)
    ultimately have "d k = None" by (simp add: mk tiers_def)
    with k show False by auto
  qed
qed

text \<open>With one CLI option, the result has string keys only, \<^verbatim>\<open>topology.workers\<close> among
  them.\<close>

theorem resolve_options_string_keys_witness:
  "env_options env_plain = Inr Map.empty
   \<and> dom (config topology_plain) = {}
   \<and> dom (cli_or_empty (Some [KStr ''topology.workers'' \<mapsto> PInt 3])) = {KStr ''topology.workers''}
   \<and> (\<exists>d. resolve_options two_workers (Some [KStr ''topology.workers'' \<mapsto> PInt 3]) env_plain
              topology_plain ''wordcount'' False = Inr d
          \<and> KStr ''topology.workers'' \<in> dom d \<and> (\<forall>k \<in> dom d. is_str_key k))"
proof -
  let ?cli = "Some [KStr ''topology.workers'' \<mapsto> PInt 3]"
  have o: "env_options env_plain = Inr Map.empty"
    by (simp add: env_options_def env_plain_def)
  have a: "\<forall>k \<in> dom (Map.empty :: dict). is_str_key k" by simp
  have b: "\<forall>k \<in> dom (config topology_plain). is_str_key k"
    by (simp add: topology_plain_def)
  have c: "\<forall>k \<in> dom (cli_or_empty ?cli). is_str_key k"
    by (simp add: cli_or_empty_def)
  obtain d where d: "resolve_options two_workers ?cli env_plain topology_plain ''wordcount'' False = Inr d"
    by (simp add: eval_defs)
  have "item (resolve_options two_workers ?cli env_plain topology_plain ''wordcount'' False)
          (KStr ''topology.workers'') = Inr (Some (PInt 3))"
    by (simp add: eval_defs)
  with d have e: "KStr ''topology.workers'' \<in> dom d" by (auto simp: item_def)
  have "dom (config topology_plain) = {}"
    and "dom (cli_or_empty ?cli) = {KStr ''topology.workers''}"
    by (simp_all add: topology_plain_def cli_or_empty_def)
  with resolve_options_string_keys[OF d o a b c] o d e show ?thesis by blast
qed

subsection \<open>Worker counts\<close>

lemma storm_workers_count:
  assumes "storm_workers g env local m = Inr (s, n)"
  shows "worker_count local s = Some n"
  using assms
  by (auto simp: storm_workers_def worker_count_def split: if_splits sum.splits option.splits)

lemma storm_workers_split:
  assumes "storm_workers g env False m = Inr (s, n)"
    and "m (KStr ''storm.workers.list'') = Some (PStr str)" and "str \<noteq> []"
  shows "s (KStr ''storm.workers.list'') = Some (PList (map PStr (split str CHR '','')))"
  using assms
  by (auto simp: storm_workers_def dict_get_def split: if_splits sum.splits option.splits)

lemma resolve_options_workers_list:
  assumes "resolve_options g cli env topo name local = Inr d"
    and "merge_tiers cli env topo name = Inr m"
    and "storm_workers g env local (set_debug_level m) = Inr (s, n)"
  shows "d (KStr ''storm.workers.list'') = s (KStr ''storm.workers.list'')"
    and "d (KStr ''topology.acker.executors'') =
           (if absent_or_None m (KStr ''topology.acker.executors'') then Some (PInt n)
            else m (KStr ''topology.acker.executors''))"
    and "d (KStr ''topology.workers'') =
           (if absent_or_None m (KStr ''topology.workers'') then Some (PInt n)
            else m (KStr ''topology.workers''))"
proof -
  from resolve_options_stages[OF assms(1)] assms(2,3) have
    d: "d = setdefault (default_count ''topology.workers'' n
                (default_count ''topology.acker.executors'' n s))
              (KStr ''sudo_user'') (PStr ''root'')"
    by auto
  have sk: "s k = m k" if "k \<noteq> KStr ''pystorm.log.level''" "k \<noteq> KStr ''storm.workers.list''" for k
    using storm_workers_other[OF assms(3) that(2)] set_debug_level_other[OF that(1)] by simp
  show "d (KStr ''storm.workers.list'') = s (KStr ''storm.workers.list'')"
    by (simp add: d setdefault_lookup default_count_other)
  show "d (KStr ''topology.acker.executors'') =
           (if absent_or_None m (KStr ''topology.acker.executors'') then Some (PInt n)
            else m (KStr ''topology.acker.executors''))"
    using sk[of "KStr ''topology.acker.executors''"]
    by (auto simp: d setdefault_lookup default_count_def dict_get_def absent_or_None_def
        split: option.splits)
  show "d (KStr ''topology.workers'') =
           (if absent_or_None m (KStr ''topology.workers'') then Some (PInt n)
            else m (KStr ''topology.workers''))"
    using sk[of "KStr ''topology.workers''"]
    by (auto simp: d setdefault_lookup default_count_def dict_get_def absent_or_None_def
        split: option.splits)
qed

lemma storm_workers_lookup:
  assumes "storm_workers g env False m = Inr (s, n)"
    and "\<not> truthy (dict_get m (KStr ''storm.workers.list'') PNone)"
  shows "\<exists>w. g env = Inr w \<and> s (KStr ''storm.workers.list'') = Some w"
  using assms
  by (auto simp: storm_workers_def split: if_splits sum.splits option.splits)

lemma storm_workers_keep:
  assumes "storm_workers g env False m = Inr (s, n)"
    and "truthy (dict_get m (KStr ''storm.workers.list'') PNone)"
    and "\<not> isinstance_str (dict_get m (KStr ''storm.workers.list'') PNone)"
  shows "s (KStr ''storm.workers.list'') = m (KStr ''storm.workers.list'')"
  using assms
  by (auto simp: storm_workers_def dict_get_def
      split: if_splits sum.splits option.splits pyval.splits)

text \<open>
  Claim C3 as it is stated, refuted: a string value of \<^verbatim>\<open>storm.workers.list\<close> is split on
  commas. The empty string is falsy, so it is replaced by the result of the worker lookup,
  and the counts are its length, where splitting \<^verbatim>\<open>""\<close> gives the one-element list
  \<^verbatim>\<open>[""]\<close>.
\<close>

theorem workers_list_counterexample:
  "item (resolve_options two_workers (Some [KStr ''storm.workers.list'' \<mapsto> PStr ''''])
          env_plain topology_plain ''wordcount'' False)
        (KStr ''storm.workers.list'') = Inr (Some (PList [PStr ''w1'', PStr ''w2'']))
   \<and> PList (map PStr (split '''' CHR '','')) = PList [PStr '''']
   \<and> item (resolve_options two_workers (Some [KStr ''storm.workers.list'' \<mapsto> PStr ''''])
          env_plain topology_plain ''wordcount'' False)
        (KStr ''topology.workers'') = Inr (Some (PInt 2))"
  by (simp add: eval_defs split_def)

text \<open>
  Claim C3, amended. If after merging the three tiers \<^verbatim>\<open>topology.acker.executors\<close> is
  absent or \<^verbatim>\<open>None\<close>, it is set to the number of entries in the resolved
  \<^verbatim>\<open>storm.workers.list\<close>, which is 1 when \<^verbatim>\<open>local_only\<close> is true, where the list is forced
  to \<^verbatim>\<open>[]\<close>, and it keeps its merged value otherwise; the same holds independently for
  \<^verbatim>\<open>topology.workers\<close>. When \<^verbatim>\<open>local_only\<close> is false, the resolved
  \<^verbatim>\<open>storm.workers.list\<close> is the result of \<^verbatim>\<open>get_storm_workers(env_config)\<close> when the merged
  value is absent or falsy, the empty string included; a merged value that is a non-empty
  string is split on commas into a list; and any other merged value is kept.
\<close>

theorem resolve_options_worker_counts:
  assumes "resolve_options g cli env topo name local = Inr d"
    and "merge_tiers cli env topo name = Inr m"
  shows "\<exists>n. worker_count local d = Some n
     \<and> d (KStr ''topology.acker.executors'') =
         (if absent_or_None m (KStr ''topology.acker.executors'') then Some (PInt n)
          else m (KStr ''topology.acker.executors''))
     \<and> d (KStr ''topology.workers'') =
         (if absent_or_None m (KStr ''topology.workers'') then Some (PInt n)
          else m (KStr ''topology.workers''))
     \<and> (local \<longrightarrow> d (KStr ''storm.workers.list'') = Some (PList []))
     \<and> (\<not> local \<and> \<not> truthy (dict_get m (KStr ''storm.workers.list'') PNone) \<longrightarrow>
          (\<exists>w. g env = Inr w \<and> d (KStr ''storm.workers.list'') = Some w))
     \<and> (\<forall>str. \<not> local \<and> m (KStr ''storm.workers.list'') = Some (PStr str) \<and> str \<noteq> [] \<longrightarrow>
          d (KStr ''storm.workers.list'') = Some (PList (map PStr (split str CHR '',''))))
     \<and> (\<not> local \<and> truthy (dict_get m (KStr ''storm.workers.list'') PNone)
          \<and> \<not> isinstance_str (dict_get m (KStr ''storm.workers.list'') PNone) \<longrightarrow>
          d (KStr ''storm.workers.list'') = m (KStr ''storm.workers.list''))"
proof -
  from resolve_options_stages[OF assms(1)] assms(2) obtain s n where
    s: "storm_workers g env local (set_debug_level m) = Inr (s, n)" by auto
  note r = resolve_options_workers_list[OF assms s]
  have wl: "set_debug_level m (KStr ''storm.workers.list'') = m (KStr ''storm.workers.list'')"
    by (simp add: set_debug_level_other)
  then have wg: "dict_get (set_debug_level m) (KStr ''storm.workers.list'') PNone
      = dict_get m (KStr ''storm.workers.list'') PNone"
    by (simp add: dict_get_def)
  have "worker_count local d = Some n"
    using storm_workers_count[OF s] r(1) by (auto simp: worker_count_def split: if_splits)
  moreover have "local \<longrightarrow> d (KStr ''storm.workers.list'') = Some (PList [])"
    using s r(1) by (auto simp: storm_workers_def)
  moreover have "\<exists>w. g env = Inr w \<and> d (KStr ''storm.workers.list'') = Some w"
    if "\<not> local" "\<not> truthy (dict_get m (KStr ''storm.workers.list'') PNone)"
    using storm_workers_lookup[of g env "set_debug_level m" s n] s that wg r(1) by simp
  moreover have "d (KStr ''storm.workers.list'') = Some (PList (map PStr (split str CHR '','')))"
    if "\<not> local" "m (KStr ''storm.workers.list'') = Some (PStr str)" "str \<noteq> []" for str
    using storm_workers_split[of g env "set_debug_level m" s n str] s that wl r(1) by simp
  moreover have "d (KStr ''storm.workers.list'') = m (KStr ''storm.workers.list'')"
    if "\<not> local" "truthy (dict_get m (KStr ''storm.workers.list'') PNone)"
       "\<not> isinstance_str (dict_get m (KStr ''storm.workers.list'') PNone)"
    using storm_workers_keep[of g env "set_debug_level m" s n] s that wg wl r(1) by simp
  ultimately show ?thesis using r(2,3) by blast
qed

text \<open>A comma-separated list of three workers on the command line, and no counts; and
  no list at all, with a lookup that finds two workers and four workers asked for on the
  command line.\<close>

theorem resolve_options_worker_counts_witness:
  "(\<exists>d m. resolve_options no_nimbus (Some [KStr ''storm.workers.list'' \<mapsto> PStr ''w1,w2,w3''])
            env_plain topology_plain ''wordcount'' False = Inr d
     \<and> merge_tiers (Some [KStr ''storm.workers.list'' \<mapsto> PStr ''w1,w2,w3''])
            env_plain topology_plain ''wordcount'' = Inr m
     \<and> absent_or_None m (KStr ''topology.acker.executors'')
     \<and> absent_or_None m (KStr ''topology.workers'')
     \<and> m (KStr ''storm.workers.list'') = Some (PStr ''w1,w2,w3'')
     \<and> d (KStr ''storm.workers.list'') = Some (PList [PStr ''w1'', PStr ''w2'', PStr ''w3''])
     \<and> d (KStr ''topology.acker.executors'') = Some (PInt 3)
     \<and> d (KStr ''topology.workers'') = Some (PInt 3))
   \<and> (\<exists>d m. resolve_options two_workers (Some [KStr ''topology.workers'' \<mapsto> PInt 4])
            env_plain topology_plain ''wordcount'' False = Inr d
     \<and> merge_tiers (Some [KStr ''topology.workers'' \<mapsto> PInt 4])
            env_plain topology_plain ''wordcount'' = Inr m
     \<and> absent_or_None m (KStr ''topology.acker.executors'')
     \<and> m (KStr ''topology.workers'') = Some (PInt 4)
     \<and> m (KStr ''storm.workers.list'') = None
     \<and> two_workers env_plain = Inr (PList [PStr ''w1'', PStr ''w2''])
     \<and> d (KStr ''storm.workers.list'') = Some (PList [PStr ''w1'', PStr ''w2''])
     \<and> d (KStr ''topology.acker.executors'') = Some (PInt 2)
     \<and> d (KStr ''topology.workers'') = Some (PInt 4))"
proof -
  let ?cli = "Some [KStr ''storm.workers.list'' \<mapsto> PStr ''w1,w2,w3'']"
  obtain d where d: "resolve_options no_nimbus ?cli env_plain topology_plain ''wordcount'' False = Inr d"
    by (simp add: eval_defs)
  obtain m where m: "merge_tiers ?cli env_plain topology_plain ''wordcount'' = Inr m"
    by (simp add: eval_defs)
  have m1: "absent_or_None m (KStr ''topology.acker.executors'')"
    and m2: "absent_or_None m (KStr ''topology.workers'')"
    and m3: "m (KStr ''storm.workers.list'') = Some (PStr ''w1,w2,w3'')"
    using m by (auto simp: eval_defs absent_or_None_def)
  from resolve_options_worker_counts[OF d m] obtain n where
        n: "worker_count False d = Some n"
    and a: "d (KStr ''topology.acker.executors'') = Some (PInt n)"
    and w: "d (KStr ''topology.workers'') = Some (PInt n)"
    and l: "d (KStr ''storm.workers.list'') = Some (PList (map PStr (split ''w1,w2,w3'' CHR '','')))"
    using m1 m2 m3 by auto
  have l': "d (KStr ''storm.workers.list'') = Some (PList [PStr ''w1'', PStr ''w2'', PStr ''w3''])"
    using l by (simp add: split_def)
  have "n = 3" using n l' by (simp add: worker_count_def)
  with d m m1 m2 m3 l' a w have first:
    "\<exists>d m. resolve_options no_nimbus ?cli env_plain topology_plain ''wordcount'' False = Inr d
     \<and> merge_tiers ?cli env_plain topology_plain ''wordcount'' = Inr m
     \<and> absent_or_None m (KStr ''topology.acker.executors'')
     \<and> absent_or_None m (KStr ''topology.workers'')
     \<and> m (KStr ''storm.workers.list'') = Some (PStr ''w1,w2,w3'')
     \<and> d (KStr ''storm.workers.list'') = Some (PList [PStr ''w1'', PStr ''w2'', PStr ''w3''])
     \<and> d (KStr ''topology.acker.executors'') = Some (PInt 3)
     \<and> d (KStr ''topology.workers'') = Some (PInt 3)"
    by blast
  let ?cli2 = "Some [KStr ''topology.workers'' \<mapsto> PInt 4]"
  obtain d2 where d2: "resolve_options two_workers ?cli2 env_plain topology_plain ''wordcount'' False = Inr d2"
    by (simp add: eval_defs)
  obtain m' where m': "merge_tiers ?cli2 env_plain topology_plain ''wordcount'' = Inr m'"
    by (simp add: eval_defs)
  have k1: "absent_or_None m' (KStr ''topology.acker.executors'')"
    and k2: "m' (KStr ''topology.workers'') = Some (PInt 4)"
    and k3: "m' (KStr ''storm.workers.list'') = None"
    using m' by (auto simp: eval_defs absent_or_None_def)
  have k4: "\<not> absent_or_None m' (KStr ''topology.workers'')"
    and k5: "\<not> truthy (dict_get m' (KStr ''storm.workers.list'') PNone)"
    using k2 k3 by (simp_all add: absent_or_None_def dict_get_def)
  have g: "two_workers env_plain = Inr (PList [PStr ''w1'', PStr ''w2''])"
    by (simp add: two_workers_def)
  from resolve_options_worker_counts[OF d2 m'] obtain n2 where
        n2: "worker_count False d2 = Some n2"
    and a2: "d2 (KStr ''topology.acker.executors'') = Some (PInt n2)"
    and w2: "d2 (KStr ''topology.workers'') = Some (PInt 4)"
    and l2: "\<exists>w. two_workers env_plain = Inr w \<and> d2 (KStr ''storm.workers.list'') = Some w"
    using k1 k2 k4 k5 by auto
  have l2': "d2 (KStr ''storm.workers.list'') = Some (PList [PStr ''w1'', PStr ''w2''])"
    using l2 g by auto
  have "n2 = 2" using n2 l2' by (simp add: worker_count_def)
  with d2 m' k1 k2 k3 g l2' a2 w2 have second:
    "\<exists>d m. resolve_options two_workers ?cli2 env_plain topology_plain ''wordcount'' False = Inr d
     \<and> merge_tiers ?cli2 env_plain topology_plain ''wordcount'' = Inr m
     \<and> absent_or_None m (KStr ''topology.acker.executors'')
     \<and> m (KStr ''topology.workers'') = Some (PInt 4)
     \<and> m (KStr ''storm.workers.list'') = None
     \<and> two_workers env_plain = Inr (PList [PStr ''w1'', PStr ''w2''])
     \<and> d (KStr ''storm.workers.list'') = Some (PList [PStr ''w1'', PStr ''w2''])
     \<and> d (KStr ''topology.acker.executors'') = Some (PInt 2)
     \<and> d (KStr ''topology.workers'') = Some (PInt 4)"
    by blast
  from first second show ?thesis by blast
qed

subsection \<open>Logging defaults\<close>

lemma resolve_options_log_level:
  assumes "resolve_options g cli env topo name local = Inr d"
    and "merge_tiers cli env topo name = Inr m"
  shows "d (KStr ''pystorm.log.level'') =
     (if truthy (dict_get d (KStr ''topology.debug'') (PBool False)) then Some (PStr ''debug'')
      else m (KStr ''pystorm.log.level''))"
proof -
  from resolve_options_stages[OF assms(1)] assms(2) obtain s n where
        s: "storm_workers g env local (set_debug_level m) = Inr (s, n)"
    and d: "d = setdefault (default_count ''topology.workers'' n
                (default_count ''topology.acker.executors'' n s))
              (KStr ''sudo_user'') (PStr ''root'')"
    by auto
  have "d (KStr ''topology.debug'') = m (KStr ''topology.debug'')"
    using resolve_options_frame[OF assms] by (simp add: post_merge_keys_def)
  then have dbg: "dict_get d (KStr ''topology.debug'') (PBool False)
      = dict_get m (KStr ''topology.debug'') (PBool False)"
    by (simp add: dict_get_def)
  have "d (KStr ''pystorm.log.level'') = s (KStr ''pystorm.log.level'')"
    by (simp add: d setdefault_lookup default_count_other)
  also have "\<dots> = set_debug_level m (KStr ''pystorm.log.level'')"
    using storm_workers_other[OF s] by simp
  finally show ?thesis by (simp add: set_debug_level_def dbg)
qed

text \<open>
  Claim C5 as it is stated, refuted: \<^verbatim>\<open>pystorm.log.path\<close> is absent when neither
  \<^verbatim>\<open>env_config["log"]["path"]\<close> nor \<^verbatim>\<open>env_config["log_path"]\<close> is set and neither the
  topology nor the CLI overrides it. The environment options are stored first, so a
  \<^verbatim>\<open>pystorm.log.path\<close> given there stays.
\<close>

theorem log_path_counterexample:
  "log (env_plain\<lparr>options := Some (Mapping [KStr ''pystorm.log.path'' \<mapsto> PStr ''/var/log/storm''])\<rparr>) = None
   \<and> log_path (env_plain\<lparr>options := Some (Mapping [KStr ''pystorm.log.path'' \<mapsto> PStr ''/var/log/storm''])\<rparr>) = None
   \<and> config topology_plain (KStr ''pystorm.log.path'') = None
   \<and> item (resolve_options two_workers None
            (env_plain\<lparr>options := Some (Mapping [KStr ''pystorm.log.path'' \<mapsto> PStr ''/var/log/storm''])\<rparr>)
            topology_plain ''wordcount'' False)
        (KStr ''pystorm.log.path'') = Inr (Some (PStr ''/var/log/storm''))"
  by (simp add: eval_defs)

text \<open>
  Claim C5, amended. Where neither the CLI options nor the topology configuration has the
  key: the resolved \<^verbatim>\<open>pystorm.log.path\<close> is \<^verbatim>\<open>env_config["log"]["path"]\<close> when that is
  truthy, otherwise \<^verbatim>\<open>env_config["log_path"]\<close> when that is truthy, and otherwise the key
  keeps its entry of the environment options, being absent when it has none there;
  likewise \<^verbatim>\<open>pystorm.log.file\<close> from \<^verbatim>\<open>log.file\<close> and \<^verbatim>\<open>log_file\<close>;
  \<^verbatim>\<open>pystorm.log.max_bytes\<close> and \<^verbatim>\<open>pystorm.log.backup_count\<close> are copied from the log
  configuration only when the value there is an \<^verbatim>\<open>int\<close>, and \<^verbatim>\<open>pystorm.log.level\<close> is
  copied lowercased only when the value there is a \<^verbatim>\<open>str\<close>, each key keeping its entry
  of the environment options otherwise; and the level is \<^verbatim>\<open>"debug"\<close> whenever the resolved
  \<^verbatim>\<open>topology.debug\<close> is truthy. Here \<open>eo\<close> is the dict of the environment options.
\<close>

theorem resolve_options_log_defaults:
  assumes "resolve_options g cli env topo name local = Inr d"
  shows "\<exists>eo. env_options env = Inr eo
     \<and> d (KStr ''pystorm.log.path'') =
           tiers cli topo (KStr ''pystorm.log.path'')
             (case log_setting env ''path'' (log_path env) of
                None \<Rightarrow> eo (KStr ''pystorm.log.path'')
              | Some v \<Rightarrow> Some v)
     \<and> d (KStr ''pystorm.log.file'') =
           tiers cli topo (KStr ''pystorm.log.file'')
             (case log_setting env ''file'' (log_file env) of
                None \<Rightarrow> eo (KStr ''pystorm.log.file'')
              | Some v \<Rightarrow> Some v)
     \<and> d (KStr ''pystorm.log.max_bytes'') =
           tiers cli topo (KStr ''pystorm.log.max_bytes'')
             (if isinstance_int (dict_get (log_config env) (KStr ''max_bytes'') PNone)
              then Some (dict_get (log_config env) (KStr ''max_bytes'') PNone)
              else eo (KStr ''pystorm.log.max_bytes''))
     \<and> d (KStr ''pystorm.log.backup_count'') =
           tiers cli topo (KStr ''pystorm.log.backup_count'')
             (if isinstance_int (dict_get (log_config env) (KStr ''backup_count'') PNone)
              then Some (dict_get (log_config env) (KStr ''backup_count'') PNone)
              else eo (KStr ''pystorm.log.backup_count''))
     \<and> d (KStr ''pystorm.log.level'') =
           (if truthy (dict_get d (KStr ''topology.debug'') (PBool False))
            then Some (PStr ''debug'')
            else tiers cli topo (KStr ''pystorm.log.level'')
                   (if isinstance_str (dict_get (log_config env) (KStr ''level'') PNone)
                    then Some (str_lower (dict_get (log_config env) (KStr ''level'') PNone))
                    else eo (KStr ''pystorm.log.level'')))"
proof -
  from resolve_options_stages[OF assms(1)] obtain m where m: "merge_tiers cli env topo name = Inr m"
    by auto
  from merge_tiers_lookup[OF m] obtain e where e: "env_tier env name = Inr e"
    and mk: "\<And>k. m k = tiers cli topo k (e k)" by auto
  from resolve_options_env_options[OF assms] obtain eo where eo: "env_options env = Inr eo"
    by auto
  note ek = env_tier_log_key[OF e eo]
  have p: "d (KStr ''pystorm.log.path'') = tiers cli topo (KStr ''pystorm.log.path'')
             (set_log_options env eo (KStr ''pystorm.log.path''))"
    using resolve_options_frame[OF assms m, of "KStr ''pystorm.log.path''"] ek[of "KStr ''pystorm.log.path''"]
    by (simp add: post_merge_keys_def mk)
  have f: "d (KStr ''pystorm.log.file'') = tiers cli topo (KStr ''pystorm.log.file'')
             (set_log_options env eo (KStr ''pystorm.log.file''))"
    using resolve_options_frame[OF assms m, of "KStr ''pystorm.log.file''"] ek[of "KStr ''pystorm.log.file''"]
    by (simp add: post_merge_keys_def mk)
  have b: "d (KStr ''pystorm.log.max_bytes'') = tiers cli topo (KStr ''pystorm.log.max_bytes'')
             (set_log_options env eo (KStr ''pystorm.log.max_bytes''))"
    using resolve_options_frame[OF assms m, of "KStr ''pystorm.log.max_bytes''"] ek[of "KStr ''pystorm.log.max_bytes''"]
    by (simp add: post_merge_keys_def mk)
  have c: "d (KStr ''pystorm.log.backup_count'') = tiers cli topo (KStr ''pystorm.log.backup_count'')
             (set_log_options env eo (KStr ''pystorm.log.backup_count''))"
    using resolve_options_frame[OF assms m, of "KStr ''pystorm.log.backup_count''"] ek[of "KStr ''pystorm.log.backup_count''"]
    by (simp add: post_merge_keys_def mk)
  have l: "m (KStr ''pystorm.log.level'') = tiers cli topo (KStr ''pystorm.log.level'')
             (set_log_options env eo (KStr ''pystorm.log.level''))"
    using ek[of "KStr ''pystorm.log.level''"] by (simp add: mk)
  have "d (KStr ''pystorm.log.path'') =
           tiers cli topo (KStr ''pystorm.log.path'')
             (case log_setting env ''path'' (log_path env) of
                None \<Rightarrow> eo (KStr ''pystorm.log.path'')
              | Some v \<Rightarrow> Some v)"
    unfolding p set_log_options_path by simp
  moreover have "d (KStr ''pystorm.log.file'') =
           tiers cli topo (KStr ''pystorm.log.file'')
             (case log_setting env ''file'' (log_file env) of
                None \<Rightarrow> eo (KStr ''pystorm.log.file'')
              | Some v \<Rightarrow> Some v)"
    unfolding f set_log_options_file by simp
  moreover have "d (KStr ''pystorm.log.max_bytes'') =
           tiers cli topo (KStr ''pystorm.log.max_bytes'')
             (if isinstance_int (dict_get (log_config env) (KStr ''max_bytes'') PNone)
              then Some (dict_get (log_config env) (KStr ''max_bytes'') PNone)
              else eo (KStr ''pystorm.log.max_bytes''))"
    unfolding b set_log_options_max_bytes by simp
  moreover have "d (KStr ''pystorm.log.backup_count'') =
           tiers cli topo (KStr ''pystorm.log.backup_count'')
             (if isinstance_int (dict_get (log_config env) (KStr ''backup_count'') PNone)
              then Some (dict_get (log_config env) (KStr ''backup_count'') PNone)
              else eo (KStr ''pystorm.log.backup_count''))"
    unfolding c set_log_options_backup_count by simp
  moreover have "d (KStr ''pystorm.log.level'') =
           (if truthy (dict_get d (KStr ''topology.debug'') (PBool False))
            then Some (PStr ''debug'')
            else tiers cli topo (KStr ''pystorm.log.level'')
                   (if isinstance_str (dict_get (log_config env) (KStr ''level'') PNone)
                    then Some (str_lower (dict_get (log_config env) (KStr ''level'') PNone))
                    else eo (KStr ''pystorm.log.level'')))"
    unfolding resolve_options_log_level[OF assms m] l set_log_options_level by simp
  ultimately show ?thesis using eo by blast
qed

text \<open>A log configuration with a path, an upper-case level, an integer \<^verbatim>\<open>max_bytes\<close> and a
  \<^verbatim>\<open>backup_count\<close> that is a string, which is not copied.\<close>

theorem resolve_options_log_defaults_witness:
  "\<exists>d. resolve_options two_workers None env_logging topology_plain ''wordcount'' False = Inr d
     \<and> d (KStr ''pystorm.log.path'') = Some (PStr ''/var/log/storm'')
     \<and> d (KStr ''pystorm.log.file'') = Some (PStr ''storm.log'')
     \<and> d (KStr ''pystorm.log.max_bytes'') = Some (PInt 1000000)
     \<and> d (KStr ''pystorm.log.backup_count'') = None
     \<and> d (KStr ''pystorm.log.level'') = Some (PStr ''info'')"
proof -
  obtain d where d: "resolve_options two_workers None env_logging topology_plain ''wordcount'' False = Inr d"
    by (simp add: eval_defs env_logging_def)
  have "item (resolve_options two_workers None env_logging topology_plain ''wordcount'' False)
          (KStr ''topology.debug'') = Inr None"
    by (simp add: eval_defs env_logging_def)
  with d have dbg: "d (KStr ''topology.debug'') = None"
    by (simp add: item_def)
  have t: "tiers None topology_plain k below = below" for k below
    by (simp add: tiers_def cli_or_empty_def topology_plain_def)
  have l: "log_config env_logging = [KStr ''path'' \<mapsto> PStr ''/var/log/storm'', KStr ''level'' \<mapsto> PStr ''INFO'',
                            KStr ''max_bytes'' \<mapsto> PInt 1000000, KStr ''backup_count'' \<mapsto> PStr ''3'']"
    and f: "log_file env_logging = Some (PStr ''storm.log'')" "log_path env_logging = None"
    and o: "env_options env_logging = Inr Map.empty"
    by (simp_all add: log_config_def env_logging_def env_plain_def env_options_def)
  from resolve_options_log_defaults[OF d] obtain eo where
        "env_options env_logging = Inr eo"
    and r: "d (KStr ''pystorm.log.path'') =
           tiers None topology_plain (KStr ''pystorm.log.path'')
             (case log_setting env_logging ''path'' (log_path env_logging) of
                None \<Rightarrow> eo (KStr ''pystorm.log.path'')
              | Some v \<Rightarrow> Some v)
     \<and> d (KStr ''pystorm.log.file'') =
           tiers None topology_plain (KStr ''pystorm.log.file'')
             (case log_setting env_logging ''file'' (log_file env_logging) of
                None \<Rightarrow> eo (KStr ''pystorm.log.file'')
              | Some v \<Rightarrow> Some v)
     \<and> d (KStr ''pystorm.log.max_bytes'') =
           tiers None topology_plain (KStr ''pystorm.log.max_bytes'')
             (if isinstance_int (dict_get (log_config env_logging) (KStr ''max_bytes'') PNone)
              then Some (dict_get (log_config env_logging) (KStr ''max_bytes'') PNone)
              else eo (KStr ''pystorm.log.max_bytes''))
     \<and> d (KStr ''pystorm.log.backup_count'') =
           tiers None topology_plain (KStr ''pystorm.log.backup_count'')
             (if isinstance_int (dict_get (log_config env_logging) (KStr ''backup_count'') PNone)
              then Some (dict_get (log_config env_logging) (KStr ''backup_count'') PNone)
              else eo (KStr ''pystorm.log.backup_count''))
     \<and> d (KStr ''pystorm.log.level'') =
           (if truthy (dict_get d (KStr ''topology.debug'') (PBool False))
            then Some (PStr ''debug'')
            else tiers None topology_plain (KStr ''pystorm.log.level'')
                   (if isinstance_str (dict_get (log_config env_logging) (KStr ''level'') PNone)
                    then Some (str_lower (dict_get (log_config env_logging) (KStr ''level'') PNone))
                    else eo (KStr ''pystorm.log.level'')))"
    by blast
  then have "eo = Map.empty" using o by simp
  with r d show ?thesis
    by (simp add: dbg t l f log_setting_def dict_get_def lower_def lower_char_def)
qed

subsection \<open>Precedence of the three tiers\<close>


lemma set_virtualenv_options_none:
  "\<forall>n \<in> set ks. k = KStr n \<longrightarrow> env_item env n = None \<Longrightarrow>
   set_virtualenv_options env ks s k = s k"
  by (induction ks arbitrary: s) (auto split: option.splits)


lemma set_log_options_underived:
  assumes "\<not> derived_from_env env k"
  shows "set_log_options env s k = s k"
proof -
  consider "k = KStr ''pystorm.log.path''" | "k = KStr ''pystorm.log.file''"
    | "k = KStr ''pystorm.log.max_bytes''" | "k = KStr ''pystorm.log.backup_count''"
    | "k = KStr ''pystorm.log.level''"
    | "k \<noteq> KStr ''pystorm.log.path''" "k \<noteq> KStr ''pystorm.log.file''"
      "k \<noteq> KStr ''pystorm.log.max_bytes''" "k \<noteq> KStr ''pystorm.log.backup_count''"
      "k \<noteq> KStr ''pystorm.log.level''"
    by blast
  then show ?thesis
  proof cases
    case 1
    with assms have "log_setting env ''path'' (log_path env) = None"
      by (simp add: derived_from_env_def)
    with 1 show ?thesis by (simp add: set_log_options_path)
  next
    case 2
    with assms have "log_setting env ''file'' (log_file env) = None"
      by (simp add: derived_from_env_def)
    with 2 show ?thesis by (simp add: set_log_options_file)
  next
    case 3
    with assms have "\<not> isinstance_int (dict_get (log_config env) (KStr ''max_bytes'') PNone)"
      by (simp add: derived_from_env_def)
    with 3 show ?thesis by (simp add: set_log_options_max_bytes)
  next
    case 4
    with assms have "\<not> isinstance_int (dict_get (log_config env) (KStr ''backup_count'') PNone)"
      by (simp add: derived_from_env_def)
    with 4 show ?thesis by (simp add: set_log_options_backup_count)
  next
    case 5
    with assms have "\<not> isinstance_str (dict_get (log_config env) (KStr ''level'') PNone)"
      by (simp add: derived_from_env_def)
    with 5 show ?thesis by (simp add: set_log_options_level)
  next
    case 6
    then show ?thesis by (rule set_log_options_frame)
  qed
qed


lemma env_tier_underived:
  assumes "env_tier env name = Inr e" and "env_options env = Inr eo"
    and "\<not> derived_from_env env k"
  shows "e k = eo k"
proof -
  from env_tier_stages[OF assms(1)] assms(2) obtain s1 where
        s1: "set_python_path env name eo = Inr s1"
    and e: "e = (set_virtualenv_options env VIRTUALENV_OPTIONS (set_log_options env s1))
                  (KStr ''sudo_user'' \<mapsto> (case user env of None \<Rightarrow> PNone | Some u \<Rightarrow> u))"
    by auto
  have k1: "k \<noteq> KStr ''sudo_user''"
    and k2: "\<forall>n \<in> set VIRTUALENV_OPTIONS. k = KStr n \<longrightarrow> env_item env n = None"
    and k3: "k = KStr ''topology.python.path'' \<longrightarrow>
               \<not> truthy (case use_virtualenv env of None \<Rightarrow> PBool True | Some v \<Rightarrow> v)"
    using assms(3) by (auto simp: derived_from_env_def)
  have "e k = set_log_options env s1 k"
    using e k1 set_virtualenv_options_none[OF k2] by simp
  also have "\<dots> = s1 k" by (rule set_log_options_underived[OF assms(3)])
  also have "\<dots> = eo k"
  proof (cases "k = KStr ''topology.python.path''")
    case True
    with k3 s1 show ?thesis by (simp add: set_python_path_def)
  next
    case False
    then show ?thesis by (rule set_python_path_other[OF s1])
  qed
  finally show ?thesis .
qed


lemma merge_tiers_precedence:
  assumes "merge_tiers cli env topo name = Inr m" and "env_options env = Inr eo"
    and "cli_or_empty cli k = None \<and> config topo k = None \<longrightarrow> \<not> derived_from_env env k"
  shows "m k = precedence cli topo eo k"
proof -
  from merge_tiers_lookup[OF assms(1)] obtain e where e: "env_tier env name = Inr e"
    and mk: "\<And>k. m k = tiers cli topo k (e k)" by auto
  show ?thesis
  proof (cases "cli_or_empty cli k = None \<and> config topo k = None")
    case True
    with assms(3) have "e k = eo k" using env_tier_underived[OF e assms(2)] by simp
    then show ?thesis by (simp add: mk precedence_def)
  next
    case False
    then show ?thesis by (auto simp: mk precedence_def tiers_def split: option.splits)
  qed
qed


lemma merge_tiers_precedence_static:
  assumes "merge_tiers cli env topo name = Inr m" and "env_options env = Inr eo"
    and "k \<notin> env_derived_keys"
  shows "m k = precedence cli topo eo k"
proof -
  from merge_tiers_lookup[OF assms(1)] obtain e where e: "env_tier env name = Inr e"
    and mk: "\<And>k. m k = tiers cli topo k (e k)" by auto
  show ?thesis using env_tier_other[OF e assms(2,3)] by (simp add: mk precedence_def)
qed


lemma derived_after_merge_cong:
  assumes "m (KStr ''topology.debug'') = p (KStr ''topology.debug'')"
    and "m (KStr ''storm.workers.list'') = p (KStr ''storm.workers.list'')"
    and "m (KStr ''topology.acker.executors'') = p (KStr ''topology.acker.executors'')"
    and "m (KStr ''topology.workers'') = p (KStr ''topology.workers'')"
  shows "derived_after_merge local m k = derived_after_merge local p k"
proof -
  have a: "absent_or_None m (KStr ''topology.acker.executors'')
      = absent_or_None p (KStr ''topology.acker.executors'')"
    and b: "absent_or_None m (KStr ''topology.workers'') = absent_or_None p (KStr ''topology.workers'')"
    by (simp_all add: absent_or_None_def assms)
  have c: "dict_get m (KStr ''topology.debug'') x = dict_get p (KStr ''topology.debug'') x"
    and e: "dict_get m (KStr ''storm.workers.list'') x = dict_get p (KStr ''storm.workers.list'') x"
    for x
    by (simp_all add: dict_get_def assms)
  have f: "(k = KStr ''topology.acker.executors'' \<and> absent_or_None m k)
      = (k = KStr ''topology.acker.executors'' \<and> absent_or_None p k)"
    using a by (cases "k = KStr ''topology.acker.executors''") simp_all
  have h: "(k = KStr ''topology.workers'' \<and> absent_or_None m k)
      = (k = KStr ''topology.workers'' \<and> absent_or_None p k)"
    using b by (cases "k = KStr ''topology.workers''") simp_all
  show ?thesis unfolding derived_after_merge_def c e f h ..
qed

lemma resolve_options_after_merge:
  assumes "resolve_options g cli env topo name local = Inr d"
    and "merge_tiers cli env topo name = Inr m"
    and "\<not> derived_after_merge local m k"
  shows "d k = m k"
proof -
  from resolve_options_stages[OF assms(1)] assms(2) obtain s n where
    s: "storm_workers g env local (set_debug_level m) = Inr (s, n)" by auto
  note r = resolve_options_workers_list[OF assms(1,2) s]
  consider "k = KStr ''pystorm.log.level''" | "k = KStr ''storm.workers.list''"
    | "k = KStr ''topology.acker.executors''" | "k = KStr ''topology.workers''"
    | "k \<notin> post_merge_keys"
    by (auto simp: post_merge_keys_def)
  then show ?thesis
  proof cases
    case 1
    with assms(3) have n: "\<not> truthy (dict_get m (KStr ''topology.debug'') (PBool False))"
      by (simp add: derived_after_merge_def)
    have "d (KStr ''topology.debug'') = m (KStr ''topology.debug'')"
      using resolve_options_frame[OF assms(1,2)] by (simp add: post_merge_keys_def)
    then have "dict_get d (KStr ''topology.debug'') (PBool False)
        = dict_get m (KStr ''topology.debug'') (PBool False)"
      by (simp add: dict_get_def)
    with n 1 show ?thesis using resolve_options_log_level[OF assms(1,2)] by simp
  next
    case 2
    with assms(3) have l: "\<not> local"
      and t: "truthy (dict_get m (KStr ''storm.workers.list'') PNone)"
      and i: "\<not> isinstance_str (dict_get m (KStr ''storm.workers.list'') PNone)"
      by (simp_all add: derived_after_merge_def)
    have wl: "set_debug_level m (KStr ''storm.workers.list'') = m (KStr ''storm.workers.list'')"
      by (simp add: set_debug_level_other)
    then have wg: "dict_get (set_debug_level m) (KStr ''storm.workers.list'') PNone
        = dict_get m (KStr ''storm.workers.list'') PNone"
      by (simp add: dict_get_def)
    show ?thesis
      using storm_workers_keep[of g env "set_debug_level m" s n] s l t i wg wl r(1) 2 by simp
  next
    case 3
    with assms(3) show ?thesis using r(2) by (simp add: derived_after_merge_def)
  next
    case 4
    with assms(3) show ?thesis using r(3) by (simp add: derived_after_merge_def)
  next
    case 5
    then show ?thesis by (rule resolve_options_frame[OF assms(1,2)])
  qed
qed


text \<open>
  Claim C1 as it is stated, refuted: for every key, the resolved dictionary maps the key to
  its CLI value when the CLI options have it. With \<^verbatim>\<open>topology.debug\<close> set, a log level
  \<^verbatim>\<open>"info"\<close> given on the command line is resolved to \<^verbatim>\<open>"debug"\<close>.
\<close>


theorem precedence_counterexample:
  "precedence (Some [KStr ''topology.debug'' \<mapsto> PBool True, KStr ''pystorm.log.level'' \<mapsto> PStr ''info''])
     topology_plain Map.empty (KStr ''pystorm.log.level'') = Some (PStr ''info'')
   \<and> env_options env_plain = Inr Map.empty
   \<and> item (resolve_options no_nimbus
          (Some [KStr ''topology.debug'' \<mapsto> PBool True, KStr ''pystorm.log.level'' \<mapsto> PStr ''info''])
          env_plain topology_plain ''wordcount'' True)
        (KStr ''pystorm.log.level'') = Inr (Some (PStr ''debug''))"
  by (simp add: eval_defs precedence_def tiers_def)


text \<open>
  Claim C1, amended. \<^verbatim>\<open>resolve_options\<close> merges its three sources with precedence CLI >
  topology > environment: for every key, the resolved dictionary maps the key to its CLI
  value when the key is in the CLI options, otherwise to its topology value when it is in
  the topology configuration, otherwise to its value in the environment options, and the
  key is absent when it is in none of them; except where \<^verbatim>\<open>resolve_options\<close> derives the
  value after the merge (the log level under a truthy \<^verbatim>\<open>topology.debug\<close>; the worker
  list under \<^verbatim>\<open>local_only\<close>, or when it is falsy or a string; a worker count that is absent
  or \<^verbatim>\<open>None\<close>), and except where, for a key that is in neither the CLI options nor the
  topology configuration, it derives the value from the environment configuration (the
  python path under \<^verbatim>\<open>use_virtualenv\<close>, a logging option that the environment sets, a
  virtualenv option that the environment has, and \<^verbatim>\<open>sudo_user\<close>). Here \<open>eo\<close> is the dict
  of the environment options.
\<close>


theorem resolve_options_precedence:
  assumes "resolve_options g cli env topo name local = Inr d"
    and "env_options env = Inr eo"
    and "\<not> derived_after_merge local (precedence cli topo eo) k"
    and "cli_or_empty cli k = None \<and> config topo k = None \<longrightarrow> \<not> derived_from_env env k"
  shows "d k = precedence cli topo eo k"
proof -
  from resolve_options_stages[OF assms(1)] obtain m where m: "merge_tiers cli env topo name = Inr m"
    by auto
  note st = merge_tiers_precedence_static[OF m assms(2)]
  have "derived_after_merge local m k = derived_after_merge local (precedence cli topo eo) k"
    by (rule derived_after_merge_cong) (simp_all add: st env_derived_keys_def)
  with assms(3) have "\<not> derived_after_merge local m k" by simp
  then have "d k = m k" by (rule resolve_options_after_merge[OF assms(1) m])
  also have "\<dots> = precedence cli topo eo k"
    by (rule merge_tiers_precedence[OF m assms(2,4)])
  finally show ?thesis .
qed


text \<open>
  Four workers asked for on the command line, one in the environment options: the CLI
  value is the resolved one. And a timeout in the topology configuration and in the
  environment options: the topology value is.
\<close>


theorem resolve_options_precedence_witness:
  "env_options (env_plain\<lparr>options := Some (Mapping [KStr ''topology.workers'' \<mapsto> PInt 1,
                             KStr ''topology.message.timeout.secs'' \<mapsto> PInt 30])\<rparr>)
     = Inr [KStr ''topology.workers'' \<mapsto> PInt 1, KStr ''topology.message.timeout.secs'' \<mapsto> PInt 30]
   \<and> \<not> derived_after_merge False
         (precedence (Some [KStr ''topology.workers'' \<mapsto> PInt 4])
            \<lparr>config = [KStr ''topology.message.timeout.secs'' \<mapsto> PInt 60]\<rparr>
            [KStr ''topology.workers'' \<mapsto> PInt 1, KStr ''topology.message.timeout.secs'' \<mapsto> PInt 30])
         (KStr ''topology.workers'')
   \<and> \<not> derived_after_merge False
         (precedence (Some [KStr ''topology.workers'' \<mapsto> PInt 4])
            \<lparr>config = [KStr ''topology.message.timeout.secs'' \<mapsto> PInt 60]\<rparr>
            [KStr ''topology.workers'' \<mapsto> PInt 1, KStr ''topology.message.timeout.secs'' \<mapsto> PInt 30])
         (KStr ''topology.message.timeout.secs'')
   \<and> (\<exists>d. resolve_options two_workers (Some [KStr ''topology.workers'' \<mapsto> PInt 4])
            (env_plain\<lparr>options := Some (Mapping [KStr ''topology.workers'' \<mapsto> PInt 1,
                             KStr ''topology.message.timeout.secs'' \<mapsto> PInt 30])\<rparr>)
            \<lparr>config = [KStr ''topology.message.timeout.secs'' \<mapsto> PInt 60]\<rparr>
            ''wordcount'' False = Inr d
          \<and> d (KStr ''topology.workers'') = Some (PInt 4)
          \<and> d (KStr ''topology.message.timeout.secs'') = Some (PInt 60))"
proof -
  let ?cli = "Some [KStr ''topology.workers'' \<mapsto> PInt 4]"
  let ?eo = "[KStr ''topology.workers'' \<mapsto> PInt 1, KStr ''topology.message.timeout.secs'' \<mapsto> PInt 30]"
  let ?env = "env_plain\<lparr>options := Some (Mapping ?eo)\<rparr>"
  let ?topo = "\<lparr>config = [KStr ''topology.message.timeout.secs'' \<mapsto> PInt 60]\<rparr>"
  have o: "env_options ?env = Inr ?eo"
    by (simp add: env_options_def env_plain_def)
  have a: "\<not> derived_after_merge False (precedence ?cli ?topo ?eo) (KStr ''topology.workers'')"
    and b: "\<not> derived_after_merge False (precedence ?cli ?topo ?eo)
               (KStr ''topology.message.timeout.secs'')"
    by (simp_all add: derived_after_merge_def precedence_def tiers_def cli_or_empty_def
        absent_or_None_def)
  have c: "cli_or_empty ?cli (KStr ''topology.workers'') = None
             \<and> config ?topo (KStr ''topology.workers'') = None
           \<longrightarrow> \<not> derived_from_env ?env (KStr ''topology.workers'')"
    and e: "cli_or_empty ?cli (KStr ''topology.message.timeout.secs'') = None
             \<and> config ?topo (KStr ''topology.message.timeout.secs'') = None
           \<longrightarrow> \<not> derived_from_env ?env (KStr ''topology.message.timeout.secs'')"
    by (simp_all add: cli_or_empty_def)
  obtain d where d: "resolve_options two_workers ?cli ?env ?topo ''wordcount'' False = Inr d"
    by (simp add: eval_defs)
  have "d (KStr ''topology.workers'') = Some (PInt 4)"
    using resolve_options_precedence[OF d o a c]
    by (simp add: precedence_def tiers_def cli_or_empty_def)
  moreover have "d (KStr ''topology.message.timeout.secs'') = Some (PInt 60)"
    using resolve_options_precedence[OF d o b e]
    by (simp add: precedence_def tiers_def cli_or_empty_def)
  ultimately show ?thesis using o a b d by blast
qed

subsection \<open>Parsing \<^verbatim>\<open>key=val\<close> flags\<close>

lemma split_once_acc_first:
  "c \<notin> set k \<Longrightarrow> split_once_acc c cur (k @ c # v) = [rev cur @ k, v]"
  by (induction k arbitrary: cur) auto

lemma split1_option_alias:
  "CHR ''='' \<notin> set option \<Longrightarrow> split1 (option_alias option val) CHR ''='' = [option, val]"
  by (simp add: split1_def option_alias_def split_once_acc_first)

lemma StoreDictAction_call_alias:
  assumes "CHR ''='' \<notin> set k" and "yaml_load y val = Inr v"
  shows "StoreDictAction_call y self ns (option_alias k val) =
           Inr (ns(dest self \<mapsto> Some ((namespace_items ns (dest self))(KStr k \<mapsto> v))))"
  using assms by (simp add: StoreDictAction_call_def split1_option_alias)

lemma namespace_items_update [simp]:
  "namespace_items (ns(a \<mapsto> Some d)) a = d"
  by (simp add: namespace_items_def getattr_def)

text \<open>
  Claim C7. The flags handled by \<^verbatim>\<open>_StoreDictAction\<close> are merged into a single dict. Each
  argument string \<^verbatim>\<open>key=val\<close>, which is what \<^verbatim>\<open>option_alias(key)\<close> makes of a raw value
  \<^verbatim>\<open>val\<close>, is split on the first \<^verbatim>\<open>=\<close> only, so that the key is recovered whenever it
  contains no \<^verbatim>\<open>=\<close>, whatever the value contains; the part after it is YAML-parsed and
  stored under the key in the dict of the namespace. Repeated occurrences accumulate into
  one dict, a later occurrence of a key overwriting the earlier value, and the other
  attributes of the namespace are left alone.
\<close>

theorem parse_args_accumulates:
  assumes "\<forall>(k, val) \<in> set kvs. CHR ''='' \<notin> set k \<and> yaml_load y val = Inr (f val)"
  shows "\<exists>ns'. parse_args y self ns (map (\<lambda>(k, val). option_alias k val) kvs) = Inr ns'
     \<and> namespace_items ns' (dest self) =
         namespace_items ns (dest self) ++ map_of (rev (map (\<lambda>(k, val). (KStr k, f val)) kvs))
     \<and> (\<forall>a. a \<noteq> dest self \<longrightarrow> ns' a = ns a)"
  using assms
proof (induction kvs arbitrary: ns)
  case Nil
  then show ?case by simp
next
  case (Cons kv kvs)
  obtain k val where kv: "kv = (k, val)" by (cases kv)
  let ?ns1 = "ns(dest self \<mapsto> Some ((namespace_items ns (dest self))(KStr k \<mapsto> f val)))"
  have call: "StoreDictAction_call y self ns (option_alias k val) = Inr ?ns1"
    using Cons.prems kv by (simp add: StoreDictAction_call_alias)
  have "\<forall>(k, val) \<in> set kvs. CHR ''='' \<notin> set k \<and> yaml_load y val = Inr (f val)"
    using Cons.prems by simp
  from Cons.IH[OF this, of ?ns1] obtain ns' where
        p: "parse_args y self ?ns1 (map (\<lambda>(k, val). option_alias k val) kvs) = Inr ns'"
    and i: "namespace_items ns' (dest self) =
         namespace_items ?ns1 (dest self) ++ map_of (rev (map (\<lambda>(k, val). (KStr k, f val)) kvs))"
    and o: "\<forall>a. a \<noteq> dest self \<longrightarrow> ns' a = ?ns1 a"
    by blast
  have "parse_args y self ns (map (\<lambda>(k, val). option_alias k val) (kv # kvs)) = Inr ns'"
    using call p by (simp add: kv)
  moreover have "namespace_items ns' (dest self) =
         namespace_items ns (dest self) ++ map_of (rev (map (\<lambda>(k, val). (KStr k, f val)) (kv # kvs)))"
    by (simp add: i kv map_add_upd_left)
  moreover have "\<forall>a. a \<noteq> dest self \<longrightarrow> ns' a = ns a"
    using o by simp
  ultimately show ?case by blast
qed

text \<open>Four flags, \<^verbatim>\<open>topology.workers\<close> twice, and a value that contains \<^verbatim>\<open>=\<close>.\<close>

theorem parse_args_accumulates_witness:
  "list_all (\<lambda>(k, val). CHR ''='' \<notin> set k \<and> yaml_load yaml_example val = Inr (scalar_value val))
     [(''topology.workers'', ''2''), (''topology.debug'', ''true''),
      (''topology.workers'', ''4''), (''topology.environment'', ''A=B'')]
   \<and> (\<exists>ns'. parse_args yaml_example option_action Map.empty
          [''topology.workers=2'', ''topology.debug=true'', ''topology.workers=4'',
           ''topology.environment=A=B''] = Inr ns'
        \<and> namespace_items ns' ''options'' (KStr ''topology.workers'') = Some (PInt 4)
        \<and> namespace_items ns' ''options'' (KStr ''topology.debug'') = Some (PBool True)
        \<and> namespace_items ns' ''options'' (KStr ''topology.environment'') = Some (PStr ''A=B''))"
proof -
  let ?kvs = "[(''topology.workers'', ''2''), (''topology.debug'', ''true''),
               (''topology.workers'', ''4''), (''topology.environment'', ''A=B'')]"
  have h: "\<forall>(k, val) \<in> set ?kvs.
       CHR ''='' \<notin> set k \<and> yaml_load yaml_example val = Inr (scalar_value val)"
    by (simp add: yaml_load_def yaml_example_def scalar_load_def)
  have args: "map (\<lambda>(k, val). option_alias k val) ?kvs =
      [''topology.workers=2'', ''topology.debug=true'', ''topology.workers=4'',
       ''topology.environment=A=B'']"
    by (simp add: option_alias_def)
  have dst: "dest option_action = ''options''" by (simp add: option_action_def)
  from parse_args_accumulates[OF h, of option_action Map.empty] obtain ns' where
        p: "parse_args yaml_example option_action Map.empty
              (map (\<lambda>(k, val). option_alias k val) ?kvs) = Inr ns'"
    and i: "namespace_items ns' (dest option_action) =
              namespace_items Map.empty (dest option_action) ++
              map_of (rev (map (\<lambda>(k, val). (KStr k, scalar_value val)) ?kvs))"
    by blast
  have e: "namespace_items Map.empty ''options'' = Map.empty"
    by (simp add: namespace_items_def getattr_def)
  have "namespace_items ns' ''options'' (KStr ''topology.workers'') = Some (PInt 4)"
    and "namespace_items ns' ''options'' (KStr ''topology.debug'') = Some (PBool True)"
    and "namespace_items ns' ''options'' (KStr ''topology.environment'') = Some (PStr ''A=B'')"
    using i unfolding dst e by (simp_all add: scalar_value_def)
  with p h show ?thesis unfolding args list_all_iff by blast
qed

end
